theory Spec2Isabelle
  imports Complex_Main "HOL-Library.Multiset"
begin

section \<open>Values and exceptions of the automation bridge\<close>

text \<open>
  The bridge (\<^verbatim>\<open>server/SoarBaseAPI.py\<close>) works on what \<^verbatim>\<open>json.load\<close> returns:
  \<^verbatim>\<open>None\<close>, booleans, integers, floats, strings, lists and dicts. \<open>JNull\<close> is Python's
  \<^verbatim>\<open>None\<close>, which is also what JSON \<^verbatim>\<open>null\<close> is loaded as. A dict is the list of its
  items in insertion order; the keys of a dict are distinct. A float is kept as the
  rational number it denotes (NaN and the infinities are outside the model); how float
  arithmetic rounds is a parameter of the world below.
\<close>

datatype json =
    JNull
  | JBool bool
  | JInt int
  | JFloat rat
  | JStr string
  | JArr "json list"
  | JObj "(string \<times> json) list"

text \<open>
  The exceptions are the classes the handlers of the code tell apart; all of them are
  subclasses of \<^verbatim>\<open>Exception\<close> (\<^verbatim>\<open>KeyboardInterrupt\<close> and \<^verbatim>\<open>SystemExit\<close> are outside the
  model). \<open>RequestException\<close> stands for \<^verbatim>\<open>requests.exceptions.RequestException\<close> and its
  subclasses (connection errors, timeouts). A call that may raise returns \<open>Inl e\<close> when it
  raises \<open>e\<close> and \<open>Inr v\<close> when it returns \<open>v\<close>.
\<close>

datatype exn =
    JSONDecodeError
  | ValueError
  | AttributeError
  | TypeError
  | ImportError
  | OSError
  | RecursionError
  | NameError
  | RequestException
  | OtherException

text \<open>\<^verbatim>\<open>isinstance(v, dict)\<close>, \<^verbatim>\<open>isinstance(v, (dict, list))\<close>, \<^verbatim>\<open>key in d\<close> and \<^verbatim>\<open>d[key]\<close>.\<close>

fun is_dict :: "json \<Rightarrow> bool" where
  "is_dict (JObj kvs) = True"
| "is_dict _ = False"

fun is_container :: "json \<Rightarrow> bool" where
  "is_container (JArr xs) = True"
| "is_container (JObj kvs) = True"
| "is_container _ = False"

definition dict_get :: "(string \<times> json) list \<Rightarrow> string \<Rightarrow> json" where
  "dict_get kvs key = (case map_of kvs key of Some v \<Rightarrow> v | None \<Rightarrow> JNull)"

fun has_key :: "json \<Rightarrow> string \<Rightarrow> bool" where
  "has_key (JObj kvs) key = (key \<in> set (map fst kvs))"
| "has_key _ key = False"

fun subscript :: "json \<Rightarrow> string \<Rightarrow> json" where
  "subscript (JObj kvs) key = dict_get kvs key"
| "subscript _ key = JNull"

section \<open>Context search\<close>

subsection \<open>\<^verbatim>\<open>search_context\<close>: the recursive search\<close>

text \<open>
  \<^verbatim>\<open>
  def search_context(json_obj, key):
      if isinstance(json_obj, dict):
          if key in json_obj:
              return json_obj[key]
          for k, v in json_obj.items():
              result = search_context(v, key)
              if result is not None:
                  return result
      elif isinstance(json_obj, list):
          for item in json_obj:
              result = search_context(item, key)
              if result is not None:
                  return result
      return None
  \<close>
  The two \<^verbatim>\<open>for\<close> loops have the same body; \<open>search_context_loop\<close> is that loop over the
  values still to visit. Every call of \<^verbatim>\<open>search_context\<close> takes one frame of the
  interpreter's stack: \<open>frames\<close> is the number of nested calls the interpreter still
  allows when the function is called (the recursion limit, 1000 unless it was changed,
  less the depth of the caller). A call that the limit forbids raises \<^verbatim>\<open>RecursionError\<close>,
  which nothing in the function catches.
\<close>

lemma size_dict_values [termination_simp]:
  "size_list size (map snd kvs) \<le> size_list (size_prod (\<lambda>_. 0) size) kvs"
  by (induction kvs) auto

fun search_context :: "nat \<Rightarrow> json \<Rightarrow> string \<Rightarrow> exn + json"
  and search_context_loop :: "nat \<Rightarrow> json list \<Rightarrow> string \<Rightarrow> exn + json" where
  "search_context 0 json_obj key = Inl RecursionError"
| "search_context (Suc frames) (JObj kvs) key =
     (if key \<in> set (map fst kvs) then Inr (dict_get kvs key)
      else search_context_loop frames (map snd kvs) key)"
| "search_context (Suc frames) (JArr xs) key = search_context_loop frames xs key"
| "search_context (Suc frames) _ key = Inr JNull"
| "search_context_loop frames [] key = Inr JNull"
| "search_context_loop frames (v # rest) key =
     (case search_context frames v key of
        Inl e \<Rightarrow> Inl e
      | Inr result \<Rightarrow>
          if result \<noteq> JNull then Inr result else search_context_loop frames rest key)"

subsection \<open>\<^verbatim>\<open>search_context_iterative\<close>: the search with a work stack\<close>

text \<open>
  \<^verbatim>\<open>
  def search_context_iterative(json_obj, key):
      stack = [json_obj]
      while stack:
          current = stack.pop()
          if isinstance(current, dict):
              if key in current:
                  return current[key]
              for value in current.values():
                  if isinstance(value, (dict, list)):
                      stack.append(value)
          elif isinstance(current, list):
              for item in current:
                  if isinstance(item, (dict, list)):
                      stack.append(item)
      return None
  \<close>
  The stack is kept with its top at the head of the list: \<^verbatim>\<open>pop()\<close> takes the head, and
  appending the containers among the values one after the other puts them in front in
  reverse order.
\<close>

lemma size_list_filter_le: "size_list f (filter P xs) \<le> size_list f xs"
  by (induction xs) auto

lemma size_list_rev: "size_list f (rev xs) = size_list f xs"
  by (induction xs) (auto simp: size_list_append)

lemma size_pushed_arr:
  "size_list size (filter is_container xs) < Suc (Suc (size_list size xs))"
  using size_list_filter_le [of size is_container xs] by simp

lemma size_pushed_obj:
  "size_list size (filter is_container (map snd kvs))
     < Suc (Suc (size_list (size_prod (\<lambda>_. 0) size) kvs))"
  using size_list_filter_le [of size is_container "map snd kvs"] size_dict_values [of kvs]
  by simp

function search_context_iterative_loop :: "json list \<Rightarrow> string \<Rightarrow> json" where
  "search_context_iterative_loop [] key = JNull"
| "search_context_iterative_loop (current # stack) key =
     (case current of
        JObj kvs \<Rightarrow>
          if key \<in> set (map fst kvs) then dict_get kvs key
          else search_context_iterative_loop (rev (filter is_container (map snd kvs)) @ stack) key
      | JArr xs \<Rightarrow> search_context_iterative_loop (rev (filter is_container xs) @ stack) key
      | _ \<Rightarrow> search_context_iterative_loop stack key)"
  by pat_completeness auto

termination
  by (relation "measure (\<lambda>(stack, key). size_list size stack)")
     (simp_all add: size_list_append size_list_rev size_pushed_arr size_pushed_obj)

definition search_context_iterative :: "json \<Rightarrow> string \<Rightarrow> json" where
  "search_context_iterative json_obj key = search_context_iterative_loop [json_obj] key"

subsection \<open>\<^verbatim>\<open>search_context_path\<close>: the walk along a dotted path\<close>

text \<open>
  \<^verbatim>\<open>
  def search_context_path(json_obj, key_path):
      keys = key_path.split('.')
      current_data = json_obj
      for key in keys:
          if isinstance(current_data, dict) and key in current_data:
              current_data = current_data[key]
          else:
              return None  # Key path does not exist
      return current_data
  \<close>
  \<open>split_dot\<close> is \<^verbatim>\<open>str.split('.')\<close>: it cuts at every dot, keeps empty segments and
  returns one segment for a string without a dot (also for the empty string).
\<close>

fun split_dot :: "string \<Rightarrow> string list" where
  "split_dot [] = [[]]"
| "split_dot (c # cs) =
     (if c = CHR ''.'' then [] # split_dot cs
      else (case split_dot cs of
              [] \<Rightarrow> [[c]]
            | seg # segs \<Rightarrow> (c # seg) # segs))"

fun search_context_path_loop :: "json \<Rightarrow> string list \<Rightarrow> json" where
  "search_context_path_loop current_data [] = current_data"
| "search_context_path_loop current_data (key # keys) =
     (if is_dict current_data \<and> has_key current_data key
      then search_context_path_loop (subscript current_data key) keys
      else JNull)"

definition search_context_path :: "json \<Rightarrow> string \<Rightarrow> json" where
  "search_context_path json_obj key_path =
     search_context_path_loop json_obj (split_dot key_path)"

subsection \<open>Occurrences of a key, and the walk as the specification words it\<close>

text \<open>
  \<open>occurrences key d\<close> lists the values stored under \<open>key\<close> by the mappings of the
  document \<open>d\<close>, at any depth, one entry for each mapping that has the key.
\<close>

fun occurrences :: "string \<Rightarrow> json \<Rightarrow> json list"
  and occurrences_list :: "string \<Rightarrow> json list \<Rightarrow> json list" where
  "occurrences key (JObj kvs) =
     (if key \<in> set (map fst kvs) then [dict_get kvs key] else [])
       @ occurrences_list key (map snd kvs)"
| "occurrences key (JArr xs) = occurrences_list key xs"
| "occurrences key _ = []"
| "occurrences_list key [] = []"
| "occurrences_list key (v # rest) = occurrences key v @ occurrences_list key rest"

text \<open>
  The result of the recursive search where the recursion limit is not reached, and the
  number of nested calls the recursive search makes at most on a document: one for the
  document, and as many again as its deepest value needs.
\<close>

fun search_context_unbounded :: "json \<Rightarrow> string \<Rightarrow> json"
  and search_context_unbounded_loop :: "json list \<Rightarrow> string \<Rightarrow> json" where
  "search_context_unbounded (JObj kvs) key =
     (if key \<in> set (map fst kvs) then dict_get kvs key
      else search_context_unbounded_loop (map snd kvs) key)"
| "search_context_unbounded (JArr xs) key = search_context_unbounded_loop xs key"
| "search_context_unbounded _ key = JNull"
| "search_context_unbounded_loop [] key = JNull"
| "search_context_unbounded_loop (v # rest) key =
     (let result = search_context_unbounded v key in
      if result \<noteq> JNull then result else search_context_unbounded_loop rest key)"

fun height :: "json \<Rightarrow> nat"
  and height_list :: "json list \<Rightarrow> nat" where
  "height (JObj kvs) = Suc (height_list (map snd kvs))"
| "height (JArr xs) = Suc (height_list xs)"
| "height _ = Suc 0"
| "height_list [] = 0"
| "height_list (v # rest) = max (height v) (height_list rest)"

text \<open>
  \<open>nest n\<close> is the document \<^verbatim>\<open>{"a": {"a": ... {"k": 1} ... }}\<close> with \<open>n\<close> mappings around
  \<^verbatim>\<open>{"k": 1}\<close>.
\<close>

fun nest :: "nat \<Rightarrow> json" where
  "nest 0 = JObj [(''k'', JInt 1)]"
| "nest (Suc n) = JObj [(''a'', nest n)]"

text \<open>
  The path search as the specification words it: follow every segment through
  successive mappings; fail (\<open>None\<close>) as soon as a segment is missing from the current
  mapping or the current value is not a mapping.
\<close>

fun spec_walk_down :: "json \<Rightarrow> string list \<Rightarrow> json option" where
  "spec_walk_down v [] = Some v"
| "spec_walk_down (JObj kvs) (seg # segs) =
     (case map_of kvs seg of
        None \<Rightarrow> None
      | Some v \<Rightarrow> spec_walk_down v segs)"
| "spec_walk_down _ (seg # segs) = None"

text \<open>\<^verbatim>\<open>'.'.join(segs)\<close>, the inverse of splitting.\<close>

fun join_dot :: "string list \<Rightarrow> string" where
  "join_dot [] = []"
| "join_dot [seg] = seg"
| "join_dot (seg # segs) = seg @ CHR ''.'' # join_dot segs"

definition doc_abc :: json where
  "doc_abc = JObj [(''a'', JObj [(''b'', JObj [(''c'', JInt 1)])])]"

definition doc_two_k :: json where
  "doc_two_k = JObj [(''x'', JObj [(''k'', JInt 1)]), (''y'', JObj [(''k'', JInt 2)])]"

definition doc_null_k :: json where
  "doc_null_k = JObj [(''k'', JNull)]"

section \<open>Python operations the bridge uses\<close>

text \<open>Truth value testing: \<^verbatim>\<open>if v\<close>, \<^verbatim>\<open>not v\<close>, \<^verbatim>\<open>a and b\<close>.\<close>

fun truthy :: "json \<Rightarrow> bool" where
  "truthy JNull = False"
| "truthy (JBool b) = b"
| "truthy (JInt i) = (i \<noteq> 0)"
| "truthy (JFloat r) = (r \<noteq> 0)"
| "truthy (JStr s) = (s \<noteq> [])"
| "truthy (JArr xs) = (xs \<noteq> [])"
| "truthy (JObj kvs) = (kvs \<noteq> [])"

text \<open>
  \<^verbatim>\<open>v.get(key, default)\<close>: of the values \<^verbatim>\<open>json.load\<close> returns only a dict has the method;
  on any other value the attribute lookup raises \<^verbatim>\<open>AttributeError\<close>.
\<close>

fun py_get :: "json \<Rightarrow> string \<Rightarrow> json \<Rightarrow> exn + json" where
  "py_get (JObj kvs) key dflt =
     Inr (case map_of kvs key of Some v \<Rightarrow> v | None \<Rightarrow> dflt)"
| "py_get _ key dflt = Inl AttributeError"

section \<open>The world outside the process\<close>

text \<open>
  What the bridge reads from outside is a parameter of the model.
  A local file is missing, or present with the outcome of \<^verbatim>\<open>open\<close> and \<^verbatim>\<open>json.load\<close> on
  it. An HTTP response has its status code and the outcome of \<^verbatim>\<open>response.json()\<close>.
\<close>

datatype local_file = Missing | Present "exn + json"

record response =
  status_code :: int
  json_body :: "exn + json"

text \<open>
  \<^item> \<open>stdin_isatty\<close>, \<open>stdin_json\<close>: the outcomes of \<^verbatim>\<open>sys.stdin.isatty()\<close> and of
    \<^verbatim>\<open>json.load(sys.stdin)\<close>;
  \<^item> \<open>files\<close>: the local files, by path;
  \<^item> \<open>http_get\<close>: the outcome of \<^verbatim>\<open>requests.get(url, headers=..., timeout=10)\<close>, by URL and
    by the credential sent in the \<^verbatim>\<open>X-API-Key\<close> header;
  \<^item> \<open>py_str\<close>: \<^verbatim>\<open>str(v)\<close> for a value that is not a string (a string formats as itself);
  \<^item> \<open>exc_str\<close>: \<^verbatim>\<open>str(e)\<close> for an exception;
  \<^item> \<open>json_loads\<close>: the outcome of \<^verbatim>\<open>json.loads(s)\<close>;
  \<^item> \<open>vt_exchange\<close>: the document \<^verbatim>\<open>VirusTotalIntegration.scan_url\<close> returns once it has an
    API key, by base URL, API key and scanned URL (the HTTP exchange with the scanning
    service is an external collaborator);
  \<^item> \<open>now_isoformat\<close>: \<^verbatim>\<open>datetime.now().isoformat()\<close>;
  \<^item> \<open>round_float\<close>: the float that the interpreter's arithmetic gives for an exact
    result (the rounding of the platform's floating point);
  \<^item> \<open>soar_api_mtime\<close>: the modification time of \<^verbatim>\<open>server/SoarBaseAPI.py\<close>, \<open>None\<close> when the
    file does not exist;
  \<^item> \<open>soar_api_source\<close>: the outcome of executing \<^verbatim>\<open>SoarBaseAPI.py\<close> on import, the
    attributes of the module (a function object is identified by a number) or the
    exception raised.
\<close>

record world =
  stdin_isatty :: "exn + bool"
  stdin_json :: "exn + json"
  files :: "string \<Rightarrow> local_file"
  http_get :: "string \<Rightarrow> json \<Rightarrow> exn + response"
  py_str :: "json \<Rightarrow> string"
  exc_str :: "exn \<Rightarrow> string"
  json_loads :: "string \<Rightarrow> exn + json"
  vt_exchange :: "json \<Rightarrow> json \<Rightarrow> string \<Rightarrow> json"
  now_isoformat :: string
  round_float :: "rat \<Rightarrow> rat"
  soar_api_mtime :: "real option"
  soar_api_source :: "exn + (string \<Rightarrow> nat option)"

text \<open>What a run does to the outside: requests sent and documents printed.\<close>

datatype event =
    HttpGet string json
  | VTScan string
  | Stdout json

text \<open>\<^verbatim>\<open>f"{v}"\<close>: a string formats as itself.\<close>

definition format_value :: "world \<Rightarrow> json \<Rightarrow> string" where
  "format_value w v = (case v of JStr s \<Rightarrow> s | _ \<Rightarrow> py_str w v)"

section \<open>Context protocol\<close>

text \<open>
  \<^verbatim>\<open>
  def load_context():
      try:
          input_data = None
          try:
              if not sys.stdin.isatty():
                  input_data = json.load(sys.stdin)
          except json.JSONDecodeError:
              pass
          except Exception:
              pass
          return input_data
      except Exception as e:
          print(f"Error loading context: {e}",file=sys.stderr)
          return None
  \<close>
  The inner handlers catch every exception of the inner block, so the outer handler is
  never entered.
\<close>

definition load_context :: "world \<Rightarrow> json" where
  "load_context w =
     (case stdin_isatty w of
        Inl e \<Rightarrow> JNull
      | Inr tty \<Rightarrow>
          if \<not> tty then
            (case stdin_json w of
               Inl e \<Rightarrow> JNull
             | Inr input_data \<Rightarrow> input_data)
          else JNull)"

text \<open>
  \<^verbatim>\<open>base_context()\<close> returns \<^verbatim>\<open>json.dumps({})\<close>, the text \<^verbatim>\<open>{}\<close>; the shim reads it back with
  \<^verbatim>\<open>json.loads\<close>, which gives the empty dict.
\<close>

definition base_context :: string where
  "base_context = ''{}''"

definition loads_base_context :: json where
  "loads_base_context = JObj []"

text \<open>
  The shim (\<^verbatim>\<open>user/sitecustomize.py\<close>) computes the context of the process:
  \<^verbatim>\<open>
  def _ensure_context_loaded():
      try:
          context = SoarBaseAPI.load_context()
          if context is None:
              context = json.loads(SoarBaseAPI.base_context())
      except Exception as e:
          context = json.loads(SoarBaseAPI.base_context())
      return context
  \<close>
\<close>

definition ensure_context_loaded :: "world \<Rightarrow> json" where
  "ensure_context_loaded w =
     (let context = load_context w in
      if context = JNull then loads_base_context else context)"

text \<open>\<^verbatim>\<open>return_context(data)\<close> prints \<^verbatim>\<open>json.dumps(data, indent=2)\<close> on standard output.\<close>

definition return_context :: "json \<Rightarrow> event list" where
  "return_context data = [Stdout data]"

section \<open>Integration config resolver\<close>

definition config_paths :: "string list" where
  "config_paths =
     [''data/integration_config.json'',
      ''SoarAuto/data/integration_config.json'',
      ''../SoarAuto/data/integration_config.json'']"

text \<open>
  \<^verbatim>\<open>
  for config_path in config_paths:
      try:
          if os.path.exists(config_path):
              with open(config_path, 'r') as f:
                  config = json.load(f)
              url = config.get("secauto_url")
              api_key = config.get("secauto_api_key")
              if url and api_key:
                  return url, api_key
      except Exception as e:
          continue
  return "http://localhost:8080", None
  \<close>
  \<open>read_config_file\<close> is the body of the \<^verbatim>\<open>try\<close>: it raises, returns a pair from the
  function (\<open>Some\<close>), or falls through to the next path (\<open>None\<close>).
\<close>

definition read_config_file :: "(string \<Rightarrow> local_file) \<Rightarrow> string \<Rightarrow> exn + (json \<times> json) option" where
  "read_config_file fs config_path =
     (case fs config_path of
        Missing \<Rightarrow> Inr None
      | Present (Inl e) \<Rightarrow> Inl e
      | Present (Inr config) \<Rightarrow>
          (case py_get config ''secauto_url'' JNull of
             Inl e \<Rightarrow> Inl e
           | Inr url \<Rightarrow>
               (case py_get config ''secauto_api_key'' JNull of
                  Inl e \<Rightarrow> Inl e
                | Inr api_key \<Rightarrow>
                    if truthy url \<and> truthy api_key then Inr (Some (url, api_key))
                    else Inr None)))"

fun get_secauto_config_loop :: "(string \<Rightarrow> local_file) \<Rightarrow> string list \<Rightarrow> json \<times> json" where
  "get_secauto_config_loop fs [] = (JStr ''http://localhost:8080'', JNull)"
| "get_secauto_config_loop fs (config_path # rest) =
     (case read_config_file fs config_path of
        Inr (Some pair) \<Rightarrow> pair
      | Inr None \<Rightarrow> get_secauto_config_loop fs rest
      | Inl e \<Rightarrow> get_secauto_config_loop fs rest)"

definition get_secauto_config :: "world \<Rightarrow> json \<times> json" where
  "get_secauto_config w = get_secauto_config_loop (files w) config_paths"

text \<open>
  \<^verbatim>\<open>
  def get_integration_config(integration_name: str) -> dict:
      secauto_url, secauto_api_key = get_secauto_config()
      if not secauto_api_key:
          return None
      headers = {"X-API-Key": secauto_api_key, "Content-Type": "application/json"}
      try:
          response = requests.get(f"{secauto_url}/integrations/{integration_name}",
                                  headers=headers, timeout=10)
          if response.status_code == 200:
              data = response.json()
              if data.get("success") and data.get("integration"):
                  return data["integration"]
              else:
                  return None
      except requests.exceptions.RequestException as e:
          return None
  \<close>
  \<open>integration_response\<close> is the body of the \<^verbatim>\<open>try\<close> after the request has returned a
  response; a status other than 200 falls off the end of the function, which returns
  \<^verbatim>\<open>None\<close>. The handler catches \<open>RequestException\<close> only.
\<close>

definition integration_response :: "response \<Rightarrow> exn + json" where
  "integration_response resp =
     (if status_code resp = 200 then
        (case json_body resp of
           Inl e \<Rightarrow> Inl e
         | Inr data \<Rightarrow>
             (case py_get data ''success'' JNull of
                Inl e \<Rightarrow> Inl e
              | Inr success \<Rightarrow>
                  if \<not> truthy success then Inr JNull
                  else (case py_get data ''integration'' JNull of
                          Inl e \<Rightarrow> Inl e
                        | Inr integration \<Rightarrow>
                            if truthy integration then Inr (subscript data ''integration'')
                            else Inr JNull)))
      else Inr JNull)"

definition except_request_exception :: "exn + json \<Rightarrow> exn + json" where
  "except_request_exception r =
     (case r of
        Inl e \<Rightarrow> if e = RequestException then Inr JNull else Inl e
      | Inr v \<Rightarrow> Inr v)"

definition integration_url :: "world \<Rightarrow> json \<Rightarrow> string \<Rightarrow> string" where
  "integration_url w secauto_url integration_name =
     format_value w secauto_url @ ''/integrations/'' @ integration_name"

definition get_integration_config :: "world \<Rightarrow> string \<Rightarrow> (exn + json) \<times> event list" where
  "get_integration_config w integration_name =
     (let (secauto_url, secauto_api_key) = get_secauto_config w in
      if \<not> truthy secauto_api_key then (Inr JNull, [])
      else
        (let url = integration_url w secauto_url integration_name in
         (except_request_exception
            (case http_get w url secauto_api_key of
               Inl e \<Rightarrow> Inl e
             | Inr resp \<Rightarrow> integration_response resp),
          [HttpGet url secauto_api_key])))"

text \<open>
  The candidate file at a path yields the coordinates when it is present, parses to a
  dict and has a non-empty address and a non-empty credential.
\<close>

definition candidate_usable :: "(string \<Rightarrow> local_file) \<Rightarrow> string \<Rightarrow> bool" where
  "candidate_usable fs config_path =
     (case fs config_path of
        Present (Inr (JObj kvs)) \<Rightarrow>
          truthy (dict_get kvs ''secauto_url'') \<and> truthy (dict_get kvs ''secauto_api_key'')
      | _ \<Rightarrow> False)"

text \<open>Worlds for the examples.\<close>

definition bare_world :: world where
  "bare_world =
     \<lparr> stdin_isatty = Inr True, stdin_json = Inl OSError,
       files = (\<lambda>path. Missing),
       http_get = (\<lambda>url key. Inl RequestException),
       py_str = (\<lambda>v. ''?''), exc_str = (\<lambda>e. ''?''),
       json_loads = (\<lambda>s. Inl JSONDecodeError),
       vt_exchange = (\<lambda>base_url api_key url. JObj []),
       now_isoformat = ''2024-01-01T12:00:00'',
       round_float = (\<lambda>r. r),
       soar_api_mtime = None,
       soar_api_source = Inl ImportError \<rparr>"

definition local_config :: json where
  "local_config =
     JObj [(''secauto_url'', JStr ''http://localhost:8080''), (''secauto_api_key'', JStr ''K'')]"

definition files_with_config :: "string \<Rightarrow> local_file" where
  "files_with_config path =
     (if path = ''data/integration_config.json'' then Present (Inr local_config) else Missing)"

definition list_body_world :: world where
  "list_body_world =
     bare_world \<lparr> files := files_with_config,
       http_get := (\<lambda>url key. Inr \<lparr> status_code = 200, json_body = Inr (JArr []) \<rparr>) \<rparr>"

section \<open>Capability shim and hot reload\<close>

text \<open>
  The shim (\<^verbatim>\<open>user/sitecustomize.py\<close>) binds the functions of the module \<^verbatim>\<open>SoarBaseAPI\<close>
  into \<^verbatim>\<open>builtins\<close>. A module is the map from its attribute names to its function objects.
  The state of the interpreter the shim works on: the entry of \<^verbatim>\<open>sys.modules\<close>, the
  attributes of \<^verbatim>\<open>builtins\<close>, the global \<^verbatim>\<open>last_modified_time\<close> of the shim (\<open>None\<close> while the
  name is not in \<^verbatim>\<open>globals()\<close>), and the exceptions reported on standard error.
\<close>

datatype pyobj =
    Function nat
  | Module "string \<Rightarrow> nat option"
  | ShimFunction string
  | Value json

record shim =
  sys_modules :: "string \<Rightarrow> (string \<Rightarrow> nat option) option"
  builtins :: "string \<Rightarrow> pyobj option"
  last_modified_time :: "real option"
  stderr_log :: "exn list"

text \<open>
  The statement \<^verbatim>\<open>import SoarBaseAPI\<close>: the module of \<^verbatim>\<open>sys.modules\<close> when it is there,
  otherwise the file is executed and, when that succeeds, the module is entered.
\<close>

definition import_SoarBaseAPI :: "world \<Rightarrow> shim \<Rightarrow> exn + ((string \<Rightarrow> nat option) \<times> shim)" where
  "import_SoarBaseAPI w s =
     (case sys_modules s ''SoarBaseAPI'' of
        Some m \<Rightarrow> Inr (m, s)
      | None \<Rightarrow>
          (case soar_api_source w of
             Inl e \<Rightarrow> Inl e
           | Inr m \<Rightarrow> Inr (m, s \<lparr> sys_modules := (sys_modules s)(''SoarBaseAPI'' \<mapsto> m) \<rparr>)))"

text \<open>
  A run of assignments \<^verbatim>\<open>builtins.name = SoarBaseAPI.name\<close>, one name after the other: the
  first name the module lacks raises \<^verbatim>\<open>AttributeError\<close>, and the assignments made before
  it stay.
\<close>

fun bind_attributes ::
  "(string \<Rightarrow> nat option) \<Rightarrow> string list \<Rightarrow> (string \<Rightarrow> pyobj option)
     \<Rightarrow> exn option \<times> (string \<Rightarrow> pyobj option)" where
  "bind_attributes m [] b = (None, b)"
| "bind_attributes m (name # names) b =
     (case m name of
        None \<Rightarrow> (Some AttributeError, b)
      | Some f \<Rightarrow> bind_attributes m names (b(name \<mapsto> Function f)))"

text \<open>\<^verbatim>\<open>hasattr(module, name)\<close>.\<close>

definition has_attribute :: "(string \<Rightarrow> nat option) \<Rightarrow> string \<Rightarrow> bool" where
  "has_attribute m name = (m name \<noteq> None)"

text \<open>
  \<^verbatim>\<open>
  def reload_soar_api():
      try:
          if 'SoarBaseAPI' in sys.modules:
              del sys.modules['SoarBaseAPI']
          import SoarBaseAPI
          import builtins
          builtins.SoarBaseAPI = SoarBaseAPI
          builtins.search_context = SoarBaseAPI.search_context
          builtins.search_context_iterative = SoarBaseAPI.search_context_iterative
          builtins.search_context_path = SoarBaseAPI.search_context_path
          builtins.load_context = SoarBaseAPI.load_context
          builtins.base_context = SoarBaseAPI.base_context
          builtins.return_context = SoarBaseAPI.return_context
          builtins.get_secauto_config = SoarBaseAPI.get_secauto_config
          builtins.get_integration_config = SoarBaseAPI.get_integration_config
          builtins.get_cache = SoarBaseAPI.get_cache
          builtins.set_cache = SoarBaseAPI.set_cache
          builtins.delete_cache = SoarBaseAPI.delete_cache
          return True
      except Exception as e:
          return False
  \<close>
\<close>

definition reload_names :: "string list" where
  "reload_names =
     [''search_context'', ''search_context_iterative'', ''search_context_path'',
      ''load_context'', ''base_context'', ''return_context'', ''get_secauto_config'',
      ''get_integration_config'', ''get_cache'', ''set_cache'', ''delete_cache'']"

definition reload_soar_api :: "world \<Rightarrow> shim \<Rightarrow> bool \<times> shim" where
  "reload_soar_api w s =
     (let s1 = s \<lparr> sys_modules := (sys_modules s)(''SoarBaseAPI'' := None) \<rparr> in
      case import_SoarBaseAPI w s1 of
        Inl e \<Rightarrow> (False, s1)
      | Inr (m, s2) \<Rightarrow>
          (case bind_attributes m reload_names ((builtins s2)(''SoarBaseAPI'' \<mapsto> Module m)) of
             (Some e, b) \<Rightarrow> (False, s2 \<lparr> builtins := b \<rparr>)
           | (None, b) \<Rightarrow> (True, s2 \<lparr> builtins := b \<rparr>)))"

text \<open>
  \<^verbatim>\<open>
  def check_and_reload():
      global last_modified_time
      if not soar_api_path.exists():
          return
      current_mtime = soar_api_path.stat().st_mtime
      if 'last_modified_time' not in globals():
          globals()['last_modified_time'] = current_mtime
          return
      if current_mtime > last_modified_time:
          globals()['last_modified_time'] = current_mtime
          reload_soar_api()
  \<close>
\<close>

definition check_and_reload :: "world \<Rightarrow> shim \<Rightarrow> shim" where
  "check_and_reload w s =
     (case soar_api_mtime w of
        None \<Rightarrow> s
      | Some current_mtime \<Rightarrow>
          (case last_modified_time s of
             None \<Rightarrow> s \<lparr> last_modified_time := Some current_mtime \<rparr>
           | Some recorded \<Rightarrow>
               if current_mtime > recorded
               then snd (reload_soar_api w (s \<lparr> last_modified_time := Some current_mtime \<rparr>))
               else s))"

text \<open>
  The initial import, run when the interpreter starts:
  \<^verbatim>\<open>
  try:
      import SoarBaseAPI
      import builtins
      import json
      builtins.SoarBaseAPI = SoarBaseAPI
      builtins.search_context = SoarBaseAPI.search_context
      builtins.search_context_iterative = SoarBaseAPI.search_context_iterative
      builtins.search_context_path = SoarBaseAPI.search_context_path
      builtins.load_context = SoarBaseAPI.load_context
      builtins.return_context = SoarBaseAPI.return_context
      builtins.get_secauto_config = SoarBaseAPI.get_secauto_config
      builtins.get_integration_config = SoarBaseAPI.get_integration_config
      builtins.reload_soar_api = reload_soar_api
      builtins.check_and_reload = check_and_reload
      builtins.get_cache = SoarBaseAPI.get_cache
      builtins.set_cache = SoarBaseAPI.set_cache
      builtins.delete_cache = SoarBaseAPI.delete_cache
      def _ensure_context_loaded(): ...
      secauto_url, secauto_api_key = get_secauto_config()
      global_context = _ensure_context_loaded()
      builtins.context = global_context
      builtins.secauto_url = secauto_url
      builtins.secauto_api_key = secauto_api_key
  except ImportError as e:
      _log_message(f"Warning: Could not import SoarBaseAPI from {server_path}: {e}")
  \<close>
  The handler catches \<^verbatim>\<open>ImportError\<close> only; the first component of the result is the
  exception that leaves the block, if any. The functions called at the end are those of
  the module as modelled above.
\<close>

definition initial_names :: "string list" where
  "initial_names =
     [''search_context'', ''search_context_iterative'', ''search_context_path'',
      ''load_context'', ''return_context'', ''get_secauto_config'',
      ''get_integration_config'']"

definition cache_names :: "string list" where
  "cache_names = [''get_cache'', ''set_cache'', ''delete_cache'']"

definition except_import_error :: "exn \<Rightarrow> shim \<Rightarrow> exn option \<times> shim" where
  "except_import_error e s =
     (if e = ImportError then (None, s \<lparr> stderr_log := stderr_log s @ [e] \<rparr>)
      else (Some e, s))"

definition initial_import :: "world \<Rightarrow> shim \<Rightarrow> exn option \<times> shim" where
  "initial_import w s =
     (case import_SoarBaseAPI w s of
        Inl e \<Rightarrow> except_import_error e s
      | Inr (m, s1) \<Rightarrow>
          (case bind_attributes m initial_names ((builtins s1)(''SoarBaseAPI'' \<mapsto> Module m)) of
             (Some e, b) \<Rightarrow> except_import_error e (s1 \<lparr> builtins := b \<rparr>)
           | (None, b) \<Rightarrow>
               (case bind_attributes m cache_names
                       (b(''reload_soar_api'' \<mapsto> ShimFunction ''reload_soar_api'',
                          ''check_and_reload'' \<mapsto> ShimFunction ''check_and_reload'')) of
                  (Some e, b') \<Rightarrow> except_import_error e (s1 \<lparr> builtins := b' \<rparr>)
                | (None, b') \<Rightarrow>
                    (let (secauto_url, secauto_api_key) = get_secauto_config w;
                         global_context = ensure_context_loaded w
                     in (None,
                         s1 \<lparr> builtins :=
                                b'(''context'' \<mapsto> Value global_context,
                                   ''secauto_url'' \<mapsto> Value secauto_url,
                                   ''secauto_api_key'' \<mapsto> Value secauto_api_key) \<rparr>)))))"

text \<open>
  The interpreter before the shim runs, and two versions of the module file for the
  examples: version \<open>v\<close> of a module with the given attribute names binds each of them
  to the function object \<open>v\<close>. \<open>repo_attributes\<close> are the functions that
  \<^verbatim>\<open>server/SoarBaseAPI.py\<close> of the repository defines.
\<close>

definition fresh_shim :: shim where
  "fresh_shim =
     \<lparr> sys_modules = (\<lambda>name. None), builtins = (\<lambda>name. None),
       last_modified_time = None, stderr_log = [] \<rparr>"

definition module_version :: "string list \<Rightarrow> nat \<Rightarrow> string \<Rightarrow> nat option" where
  "module_version names v name = (if name \<in> set names then Some v else None)"

definition repo_attributes :: "string list" where
  "repo_attributes =
     [''base_context'', ''load_context'', ''return_context'', ''update_context'',
      ''search_context_iterative'', ''search_context'', ''search_context_path'',
      ''get_secauto_config'', ''get_integration_config'']"

definition world_at :: "real \<Rightarrow> (string \<Rightarrow> nat option) \<Rightarrow> world" where
  "world_at t m = bare_world \<lparr> soar_api_mtime := Some t, soar_api_source := Inr m \<rparr>"

definition bound_shim :: shim where
  "bound_shim = snd (initial_import (world_at 100 (module_version reload_names 1)) fresh_shim)"

section \<open>The VirusTotal integration and the URL scanner automation\<close>

subsection \<open>Python operations of the automation\<close>

text \<open>Sequencing of calls that may raise: the first exception ends the block.\<close>

definition bind_exn :: "exn + 'a \<Rightarrow> ('a \<Rightarrow> exn + 'b) \<Rightarrow> exn + 'b" where
  "bind_exn r f = (case r of Inl e \<Rightarrow> Inl e | Inr v \<Rightarrow> f v)"

text \<open>
  \<^verbatim>\<open>for x in v\<close>: a list gives its items, a string its characters, a dict its keys; any
  other value of the JSON types raises \<^verbatim>\<open>TypeError\<close>. For these three kinds of value
  \<^verbatim>\<open>len(v)\<close> is the number of items the loop visits.
\<close>

fun py_iter :: "json \<Rightarrow> exn + json list" where
  "py_iter (JArr xs) = Inr xs"
| "py_iter (JStr s) = Inr (map (\<lambda>c. JStr [c]) s)"
| "py_iter (JObj kvs) = Inr (map (\<lambda>kv. JStr (fst kv)) kvs)"
| "py_iter _ = Inl TypeError"

text \<open>\<^verbatim>\<open>s.startswith(p)\<close>, \<^verbatim>\<open>s.endswith(p)\<close> and \<^verbatim>\<open>s.strip()\<close> on 8-bit strings.\<close>

definition startswith :: "string \<Rightarrow> string \<Rightarrow> bool" where
  "startswith s p = (take (length p) s = p)"

definition endswith :: "string \<Rightarrow> string \<Rightarrow> bool" where
  "endswith s p = (length p \<le> length s \<and> drop (length s - length p) s = p)"

definition is_space :: "char \<Rightarrow> bool" where
  "is_space c =
     (c \<in> set [CHR 0x09, CHR 0x0A, CHR 0x0B, CHR 0x0C, CHR 0x0D, CHR 0x1C, CHR 0x1D,
                CHR 0x1E, CHR 0x1F, CHR 0x20, CHR 0x85, CHR 0xA0])"

definition strip :: "string \<Rightarrow> string" where
  "strip s = rev (dropWhile is_space (rev (dropWhile is_space s)))"

text \<open>
  \<^verbatim>\<open>count += x\<close> where \<open>count\<close> is a number: booleans count as integers and the sum of
  two integers is exact; with a float the integer operand is converted to a float and
  the sum is a float, both rounded; anything else raises \<^verbatim>\<open>TypeError\<close>. \<^verbatim>\<open>x == 0\<close> holds
  for the integer, the float and the boolean zero.
\<close>

fun as_int :: "json \<Rightarrow> int option" where
  "as_int (JInt i) = Some i"
| "as_int (JBool b) = Some (if b then 1 else 0)"
| "as_int _ = None"

fun as_float :: "world \<Rightarrow> json \<Rightarrow> rat option" where
  "as_float w (JInt i) = Some (round_float w (of_int i))"
| "as_float w (JBool b) = Some (if b then 1 else 0)"
| "as_float w (JFloat r) = Some r"
| "as_float w _ = None"

definition py_add :: "world \<Rightarrow> json \<Rightarrow> json \<Rightarrow> exn + json" where
  "py_add w a b =
     (case (as_int a, as_int b) of
        (Some i, Some j) \<Rightarrow> Inr (JInt (i + j))
      | _ \<Rightarrow>
          (case (as_float w a, as_float w b) of
             (Some x, Some y) \<Rightarrow> Inr (JFloat (round_float w (x + y)))
           | _ \<Rightarrow> Inl TypeError))"

fun py_eq_zero :: "json \<Rightarrow> bool" where
  "py_eq_zero (JInt i) = (i = 0)"
| "py_eq_zero (JBool b) = (\<not> b)"
| "py_eq_zero (JFloat r) = (r = 0)"
| "py_eq_zero _ = False"

subsection \<open>The ambient names\<close>

text \<open>
  The automation and the integration use \<^verbatim>\<open>context\<close>, \<^verbatim>\<open>return_context\<close> and
  \<^verbatim>\<open>get_integration_config\<close> as plain names: Python finds them in \<^verbatim>\<open>builtins\<close>, where the
  shim has put them, and raises \<^verbatim>\<open>NameError\<close> for a name that is not there. A function the
  shim has bound behaves as the function of \<^verbatim>\<open>SoarBaseAPI.py\<close> modelled above; an object
  that is not a function cannot be called (\<^verbatim>\<open>TypeError\<close>), and only a JSON value has the
  method \<^verbatim>\<open>get\<close>.
\<close>

definition ambient_context :: "shim \<Rightarrow> exn + json" where
  "ambient_context s =
     (case builtins s ''context'' of
        None \<Rightarrow> Inl NameError
      | Some (Value context) \<Rightarrow> Inr context
      | Some _ \<Rightarrow> Inl AttributeError)"

definition call_return_context :: "shim \<Rightarrow> json \<Rightarrow> exn + event list" where
  "call_return_context s data =
     (case builtins s ''return_context'' of
        None \<Rightarrow> Inl NameError
      | Some (Function f) \<Rightarrow> Inr (return_context data)
      | Some _ \<Rightarrow> Inl TypeError)"

definition call_get_integration_config ::
  "world \<Rightarrow> shim \<Rightarrow> string \<Rightarrow> (exn + json) \<times> event list" where
  "call_get_integration_config w s integration_name =
     (case builtins s ''get_integration_config'' of
        None \<Rightarrow> (Inl NameError, [])
      | Some (Function f) \<Rightarrow> get_integration_config w integration_name
      | Some _ \<Rightarrow> (Inl TypeError, []))"

subsection \<open>\<^verbatim>\<open>VirusTotalIntegration\<close>\<close>

text \<open>
  \<^verbatim>\<open>
  def __init__(self, config_manager=None):
      self.config_manager = config_manager
      self.api_key = None
      self.base_url = "https://www.virustotal.com/api/v3"
      self.timeout = 60
      self.retries = 3
      self._load_config()

  def _load_config(self):
      try:
         config = get_integration_config("virustotal")
         if config:
              self.api_key = config.get("apikey")
              self.base_url = config.get("url", self.base_url)
              self.timeout = config.get("settings", {}).get("timeout", self.timeout)
              self.retries = config.get("settings", {}).get("retries", self.retries)
              return
      except Exception as e:
          pass
  \<close>
  An exception in the middle of the assignments leaves the attributes assigned so far.
\<close>

record vt_integration =
  vt_api_key :: json
  vt_base_url :: json
  vt_timeout :: json
  vt_retries :: json

definition apply_config :: "json \<Rightarrow> vt_integration \<Rightarrow> vt_integration" where
  "apply_config config vt =
     (case py_get config ''apikey'' JNull of
        Inl e \<Rightarrow> vt
      | Inr k \<Rightarrow>
          (let vt1 = vt \<lparr> vt_api_key := k \<rparr> in
           case py_get config ''url'' (vt_base_url vt1) of
             Inl e \<Rightarrow> vt1
           | Inr u \<Rightarrow>
               (let vt2 = vt1 \<lparr> vt_base_url := u \<rparr> in
                case bind_exn (py_get config ''settings'' (JObj []))
                       (\<lambda>settings. py_get settings ''timeout'' (vt_timeout vt2)) of
                  Inl e \<Rightarrow> vt2
                | Inr t \<Rightarrow>
                    (let vt3 = vt2 \<lparr> vt_timeout := t \<rparr> in
                     case bind_exn (py_get config ''settings'' (JObj []))
                            (\<lambda>settings. py_get settings ''retries'' (vt_retries vt3)) of
                       Inl e \<Rightarrow> vt3
                     | Inr r \<Rightarrow> vt3 \<lparr> vt_retries := r \<rparr>))))"

definition load_config ::
  "world \<Rightarrow> shim \<Rightarrow> vt_integration \<Rightarrow> vt_integration \<times> event list" where
  "load_config w s vt =
     (let (r, evs) = call_get_integration_config w s ''virustotal'' in
      case r of
        Inl e \<Rightarrow> (vt, evs)
      | Inr config \<Rightarrow> if truthy config then (apply_config config vt, evs) else (vt, evs))"

definition VirusTotalIntegration :: "world \<Rightarrow> shim \<Rightarrow> vt_integration \<times> event list" where
  "VirusTotalIntegration w s =
     load_config w s
       \<lparr> vt_api_key = JNull, vt_base_url = JStr ''https://www.virustotal.com/api/v3'',
         vt_timeout = JInt 60, vt_retries = JInt 3 \<rparr>"

text \<open>
  \<^verbatim>\<open>
  def scan_url(self, url: str) -> Dict[str, Any]:
      if not self.api_key:
          return {"virustotal": {"success": False,
                                 "error_message": "VirusTotal API key not configured"}}
      try:
          ... requests.post(f"{self.base_url}/urls", ...) ... self.get_report(analysis_id) ...
      except requests.exceptions.RequestException as e: ...
      except Exception as e: ...
  \<close>
  With an API key the method talks to the scanning service and returns a document in
  every case; that document is \<open>vt_exchange\<close> of the world.
\<close>

definition scan_url :: "world \<Rightarrow> vt_integration \<Rightarrow> string \<Rightarrow> json \<times> event list" where
  "scan_url w vt url =
     (if \<not> truthy (vt_api_key vt) then
        (JObj [(''virustotal'',
                JObj [(''success'', JBool False),
                      (''error_message'', JStr ''VirusTotal API key not configured'')])],
         [])
      else (vt_exchange w (vt_base_url vt) (vt_api_key vt) url, [VTScan url]))"

subsection \<open>\<^verbatim>\<open>automations/virustotal_url_scanner.py\<close>: \<^verbatim>\<open>main\<close>\<close>

text \<open>
  The first two blocks of \<^verbatim>\<open>main\<close>; neither returns after \<^verbatim>\<open>return_context\<close> (the
  \<^verbatim>\<open>return\<close> statements are commented out in the source):
  \<^verbatim>\<open>
  local_context = context
  urls = local_context.get('urls', [])
  if not urls:
      result = {"virustotal": {
          'success': False,
          'error': 'No URLs provided in context. Expected "urls" key or "threat_intelligence.domains"',
          'results': [],
          'summary': {'total_urls': 0, 'scanned_urls': 0, 'malicious_urls': 0,
                      'clean_urls': 0, 'failed_scans': 0}}}
      #print(json.dumps(result))
      return_context(result)
      #return result
  valid_urls = []
  invalid_urls = []
  for url in urls:
      if isinstance(url, str) and url.startswith('{{') and url.endswith('}}'):
          invalid_urls.append(url)
      elif isinstance(url, str) and url.strip():
          if url.startswith('[') and url.endswith(']'):
              try:
                  parsed_array = json.loads(url)
                  if isinstance(parsed_array, list):
                      for item in parsed_array:
                          if isinstance(item, str) and item.strip():
                              valid_urls.append(item)
                      continue
              except (json.JSONDecodeError, ValueError):
                  pass
          valid_urls.append(url)
      else:
          invalid_urls.append(str(url))
  if not valid_urls:
      result = {"virustotal": {
          'success': False,
          'error': f'No valid URLs provided. Invalid URLs: {invalid_urls}',
          'results': [],
          'summary': {'total_urls': len(urls), 'scanned_urls': 0, 'malicious_urls': 0,
                      'clean_urls': 0, 'failed_scans': len(urls)}}}
      #print(json.dumps(result))
      return_context(result)
      #return result
  \<close>
\<close>

definition no_urls_error :: string where
  \<open>no_urls_error =
     ''No URLs provided in context. Expected "urls" key or "threat_intelligence.domains"''\<close>

definition no_urls_result :: json where
  "no_urls_result =
     JObj [(''virustotal'',
       JObj [(''success'', JBool False),
             (''error'', JStr no_urls_error),
             (''results'', JArr []),
             (''summary'',
               JObj [(''total_urls'', JInt 0), (''scanned_urls'', JInt 0),
                     (''malicious_urls'', JInt 0), (''clean_urls'', JInt 0),
                     (''failed_scans'', JInt 0)])])]"

definition string_items :: "json list \<Rightarrow> string list" where
  "string_items items =
     concat (map (\<lambda>item. case item of
                            JStr s \<Rightarrow> if strip s \<noteq> [] then [s] else []
                          | _ \<Rightarrow> []) items)"

fun classify_urls ::
  "world \<Rightarrow> json list \<Rightarrow> string list \<Rightarrow> string list \<Rightarrow> exn + (string list \<times> string list)" where
  "classify_urls w [] valid_urls invalid_urls = Inr (valid_urls, invalid_urls)"
| "classify_urls w (url # rest) valid_urls invalid_urls =
     (case url of
        JStr u \<Rightarrow>
          if startswith u ''{{'' \<and> endswith u ''}}''
          then classify_urls w rest valid_urls (invalid_urls @ [u])
          else if strip u \<noteq> [] then
            (if startswith u ''['' \<and> endswith u '']'' then
               (case json_loads w u of
                  Inr (JArr items) \<Rightarrow>
                    classify_urls w rest (valid_urls @ string_items items) invalid_urls
                | Inr _ \<Rightarrow> classify_urls w rest (valid_urls @ [u]) invalid_urls
                | Inl e \<Rightarrow>
                    if e = JSONDecodeError \<or> e = ValueError
                    then classify_urls w rest (valid_urls @ [u]) invalid_urls
                    else Inl e)
             else classify_urls w rest (valid_urls @ [u]) invalid_urls)
          else classify_urls w rest valid_urls (invalid_urls @ [format_value w url])
      | _ \<Rightarrow> classify_urls w rest valid_urls (invalid_urls @ [format_value w url]))"

definition no_valid_urls_result :: "world \<Rightarrow> string list \<Rightarrow> int \<Rightarrow> json" where
  "no_valid_urls_result w invalid_urls len_urls =
     JObj [(''virustotal'',
       JObj [(''success'', JBool False),
             (''error'', JStr (''No valid URLs provided. Invalid URLs: ''
                               @ py_str w (JArr (map JStr invalid_urls)))),
             (''results'', JArr []),
             (''summary'',
               JObj [(''total_urls'', JInt len_urls), (''scanned_urls'', JInt 0),
                     (''malicious_urls'', JInt 0), (''clean_urls'', JInt 0),
                     (''failed_scans'', JInt len_urls)])])]"

text \<open>
  The scan of the valid URLs:
  \<^verbatim>\<open>
  vt = VirusTotalIntegration()
  results = []
  malicious_count = 0
  clean_count = 0
  failed_count = 0
  for url in valid_urls:
      try:
          result = vt.scan_url(url)
          virustotal_result = result.get('virustotal', {})
          stats = virustotal_result.get('stats', {})
          malicious_count_for_url = 0
          if stats:
              malicious_count_for_url = stats.get('malicious', 0)
              malicious_count += malicious_count_for_url
              if malicious_count_for_url == 0:
                  clean_count += 1
          else:
              failed_count += 1
          results.append({'url': url, 'verdicts': stats,
                          'success': virustotal_result.get('success', False),
                          'error_message': virustotal_result.get('error_message', '')})
      except Exception as e:
          results.append({'url': url, 'verdict': {}, 'success': False,
                          'error_message': str(e)})
          failed_count += 1
  for url in invalid_urls:
      results.append({'url': url, 'verdicts': {}, 'success': False,
                      'error_message': f'Template variable not resolved: {url}'})
      failed_count += 1
  \<close>
  \<open>scan_try\<close> is the body of the \<^verbatim>\<open>try\<close> after \<^verbatim>\<open>scan_url\<close> has returned; every statement
  of it that can raise does so before a counter is changed.
\<close>

record tally =
  results :: "json list"
  malicious_count :: json
  clean_count :: int
  failed_count :: int

definition scan_try :: "world \<Rightarrow> json \<Rightarrow> string \<Rightarrow> tally \<Rightarrow> exn + tally" where
  "scan_try w result url t =
     bind_exn (py_get result ''virustotal'' (JObj [])) (\<lambda>virustotal_result.
     bind_exn (py_get virustotal_result ''stats'' (JObj [])) (\<lambda>stats.
     bind_exn
       (if truthy stats then
          bind_exn (py_get stats ''malicious'' (JInt 0)) (\<lambda>malicious_count_for_url.
          bind_exn (py_add w (malicious_count t) malicious_count_for_url) (\<lambda>total.
            Inr (t \<lparr> malicious_count := total,
                     clean_count := (if py_eq_zero malicious_count_for_url
                                     then clean_count t + 1 else clean_count t) \<rparr>)))
        else Inr (t \<lparr> failed_count := failed_count t + 1 \<rparr>)) (\<lambda>t1.
     bind_exn (py_get virustotal_result ''success'' (JBool False)) (\<lambda>success.
     bind_exn (py_get virustotal_result ''error_message'' (JStr [])) (\<lambda>error_message.
       Inr (t1 \<lparr> results := results t1 @
                [JObj [(''url'', JStr url), (''verdicts'', stats), (''success'', success),
                       (''error_message'', error_message)]] \<rparr>))))))"

definition scan_except :: "world \<Rightarrow> exn \<Rightarrow> string \<Rightarrow> tally \<Rightarrow> tally" where
  "scan_except w e url t =
     t \<lparr> results := results t @
            [JObj [(''url'', JStr url), (''verdict'', JObj []), (''success'', JBool False),
                   (''error_message'', JStr (exc_str w e))]],
         failed_count := failed_count t + 1 \<rparr>"

fun scan_urls ::
  "world \<Rightarrow> vt_integration \<Rightarrow> string list \<Rightarrow> tally \<Rightarrow> tally \<times> event list" where
  "scan_urls w vt [] t = (t, [])"
| "scan_urls w vt (url # rest) t =
     (let (result, evs) = scan_url w vt url;
          t1 = (case scan_try w result url t of
                  Inr t' \<Rightarrow> t'
                | Inl e \<Rightarrow> scan_except w e url t);
          (t2, evs') = scan_urls w vt rest t1
      in (t2, evs @ evs'))"

fun add_invalid_urls :: "string list \<Rightarrow> tally \<Rightarrow> tally" where
  "add_invalid_urls [] t = t"
| "add_invalid_urls (url # rest) t =
     add_invalid_urls rest
       (t \<lparr> results := results t @
              [JObj [(''url'', JStr url), (''verdicts'', JObj []), (''success'', JBool False),
                     (''error_message'', JStr (''Template variable not resolved: '' @ url))]],
           failed_count := failed_count t + 1 \<rparr>)"

text \<open>
  The end of \<^verbatim>\<open>main\<close>:
  \<^verbatim>\<open>
  summary = {
      'total_urls': len(urls),
      'scanned_urls': len(valid_urls) - failed_count + len(invalid_urls),
      'malicious_urls': malicious_count,
      'clean_urls': clean_count,
      'failed_scans': failed_count,
      'invalid_urls': len(invalid_urls),
      'success_rate': ((len(valid_urls) - failed_count) / len(valid_urls) * 100) if valid_urls else 0
  }
  overall_success = failed_count == 0 and len(valid_urls) > 0
  v_t = {"virustotal": {'success': overall_success, 'results': results,
                        'summary': summary, 'timestamp': datetime.now().isoformat()}}
  return_context(v_t)
  \<close>
  The quotient of the two integers is a float, and so is its product with 100; each is
  rounded.
\<close>

definition final_result :: "world \<Rightarrow> int \<Rightarrow> string list \<Rightarrow> string list \<Rightarrow> tally \<Rightarrow> json" where
  "final_result w len_urls valid_urls invalid_urls t =
     (let len_valid = int (length valid_urls);
          len_invalid = int (length invalid_urls);
          summary =
            JObj [(''total_urls'', JInt len_urls),
                  (''scanned_urls'', JInt (len_valid - failed_count t + len_invalid)),
                  (''malicious_urls'', malicious_count t),
                  (''clean_urls'', JInt (clean_count t)),
                  (''failed_scans'', JInt (failed_count t)),
                  (''invalid_urls'', JInt len_invalid),
                  (''success_rate'',
                     if valid_urls \<noteq> []
                     then JFloat (round_float w
                            (round_float w (of_int (len_valid - failed_count t) / of_int len_valid)
                               * 100))
                     else JInt 0)];
          overall_success = (failed_count t = 0 \<and> len_valid > 0)
      in JObj [(''virustotal'',
           JObj [(''success'', JBool overall_success),
                 (''results'', JArr (results t)),
                 (''summary'', summary),
                 (''timestamp'', JStr (now_isoformat w))])])"

text \<open>
  \<open>main w s\<close> is \<^verbatim>\<open>main()\<close> run with the ambient names of \<open>s\<close>: it gives the exception that
  ends the run, if any, and what the run did to the outside, in order.
\<close>

definition main :: "world \<Rightarrow> shim \<Rightarrow> exn option \<times> event list" where
  "main w s =
     (case ambient_context s of
        Inl e \<Rightarrow> (Some e, [])
      | Inr context \<Rightarrow>
     (case py_get context ''urls'' (JArr []) of
        Inl e \<Rightarrow> (Some e, [])
      | Inr urls \<Rightarrow>
     (case (if \<not> truthy urls then call_return_context s no_urls_result else Inr []) of
        Inl e \<Rightarrow> (Some e, [])
      | Inr out1 \<Rightarrow>
     (case py_iter urls of
        Inl e \<Rightarrow> (Some e, out1)
      | Inr items \<Rightarrow>
     (case classify_urls w items [] [] of
        Inl e \<Rightarrow> (Some e, out1)
      | Inr (valid_urls, invalid_urls) \<Rightarrow>
     (let len_urls = int (length items) in
      case (if valid_urls = []
            then call_return_context s (no_valid_urls_result w invalid_urls len_urls)
            else Inr []) of
        Inl e \<Rightarrow> (Some e, out1)
      | Inr out2 \<Rightarrow>
     (let (vt, evs_config) = VirusTotalIntegration w s;
          (t, evs_scan) =
             scan_urls w vt valid_urls
               \<lparr> results = [], malicious_count = JInt 0, clean_count = 0, failed_count = 0 \<rparr>;
          t' = add_invalid_urls invalid_urls t;
          v_t = final_result w len_urls valid_urls invalid_urls t'
      in case call_return_context s v_t of
           Inl e \<Rightarrow> (Some e, out1 @ out2 @ evs_config @ evs_scan)
         | Inr out3 \<Rightarrow> (None, out1 @ out2 @ evs_config @ evs_scan @ out3))))))))"

text \<open>
  The process of the automation: the interpreter starts, the initial import of the shim
  runs, then the script calls \<^verbatim>\<open>main()\<close>. An exception of the initial import does not
  stop the process (Python's \<^verbatim>\<open>site\<close> module reports it on standard error and goes on),
  so \<^verbatim>\<open>main()\<close> runs with whatever names the shim has bound by then.
\<close>

definition run_automation :: "world \<Rightarrow> exn option \<times> event list" where
  "run_automation w = main w (snd (initial_import w fresh_shim))"

text \<open>The documents a run prints on standard output, and the requests it sends.\<close>

fun stdout_documents :: "event list \<Rightarrow> json list" where
  "stdout_documents [] = []"
| "stdout_documents (Stdout d # evs) = d # stdout_documents evs"
| "stdout_documents (_ # evs) = stdout_documents evs"

fun network_calls :: "event list \<Rightarrow> event list" where
  "network_calls [] = []"
| "network_calls (Stdout d # evs) = network_calls evs"
| "network_calls (ev # evs) = ev # network_calls evs"

text \<open>
  Worlds for the examples. The orchestrator pipes \<^verbatim>\<open>{"urls": []}\<close>. In \<open>piped_world\<close> the
  module file defines every name the shim binds; in \<open>piped_repo_world\<close> it is the file of
  the repository, which defines no \<^verbatim>\<open>get_cache\<close>, \<^verbatim>\<open>set_cache\<close> or \<^verbatim>\<open>delete_cache\<close>. In the
  served worlds the local file has a credential and the server answers the request for
  the integration's configuration.
\<close>

definition empty_urls_context :: json where
  "empty_urls_context = JObj [(''urls'', JArr [])]"

definition piped_world :: world where
  "piped_world =
     bare_world \<lparr> stdin_isatty := Inr False, stdin_json := Inr empty_urls_context,
       py_str := (\<lambda>v. if v = JArr [] then ''[]'' else ''?''),
       soar_api_mtime := Some 100,
       soar_api_source := Inr (module_version reload_names 1) \<rparr>"

definition piped_repo_world :: world where
  "piped_repo_world = piped_world \<lparr> soar_api_source := Inr (module_version repo_attributes 1) \<rparr>"

definition served_world :: world where
  "served_world =
     piped_world \<lparr> files := files_with_config,
       http_get := (\<lambda>url key. Inr \<lparr> status_code = 200,
         json_body = Inr (JObj [(''success'', JBool True),
                                (''integration'', JObj [(''apikey'', JStr ''VT'')])]) \<rparr>) \<rparr>"

definition served_repo_world :: world where
  "served_repo_world = served_world \<lparr> soar_api_source := Inr (module_version repo_attributes 1) \<rparr>"

section \<open>Properties of the context search\<close>

subsection \<open>Splitting and walking\<close>

lemma split_dot_not_Nil: "split_dot p \<noteq> []"
  by (induction p) (auto split: list.splits)

lemma join_dot_Cons: "segs \<noteq> [] \<Longrightarrow> join_dot (seg # segs) = seg @ CHR ''.'' # join_dot segs"
  by (cases segs) simp_all

lemma join_dot_Cons_Cons:
  "join_dot ((c # seg) # segs) = c # join_dot (seg # segs)"
  by (cases segs) simp_all

lemma join_split_dot: "join_dot (split_dot p) = p"
proof (induction p)
  case Nil
  show ?case by simp
next
  case (Cons c cs)
  show ?case
  proof (cases "c = CHR ''.''")
    case True
    then show ?thesis using Cons split_dot_not_Nil [of cs] by (simp add: join_dot_Cons)
  next
    case False
    obtain seg segs where s: "split_dot cs = seg # segs"
      using split_dot_not_Nil [of cs] by (cases "split_dot cs") auto
    then show ?thesis using False Cons by (simp add: join_dot_Cons_Cons)
  qed
qed

lemma split_dot_no_dot: "seg \<in> set (split_dot p) \<Longrightarrow> CHR ''.'' \<notin> set seg"
proof (induction p arbitrary: seg)
  case Nil
  then show ?case by simp
next
  case (Cons c cs)
  then show ?case
    by (cases "split_dot cs") (auto split: if_splits)
qed

lemma path_loop_walk:
  "search_context_path_loop d segs =
     (case spec_walk_down d segs of Some v \<Rightarrow> v | None \<Rightarrow> JNull)"
proof (induction d segs rule: spec_walk_down.induct)
  case (2 kvs seg segs)
  show ?case
  proof (cases "map_of kvs seg")
    case None
    then have "seg \<notin> set (map fst kvs)" by (simp add: map_of_eq_None_iff)
    then show ?thesis using None by simp
  next
    case (Some v)
    then have "seg \<in> set (map fst kvs)" by (metis map_of_eq_None_iff option.distinct(1) set_map)
    then show ?thesis using Some 2 by (simp add: dict_get_def)
  qed
qed simp_all

text \<open>
  C6. For every document \<open>d\<close> and dotted path \<open>p\<close>, \<open>search_context_path d p\<close> splits
  \<open>p\<close> at its dots (the segments joined by dots give \<open>p\<close> back, and no segment has a
  dot) and walks down through mappings only: it returns the value reached by following
  every segment, and the absent value \<open>None\<close> as soon as a segment is missing or the
  current value is not a mapping.
\<close>

theorem search_context_path_walks_down:
  "search_context_path d p =
     (case spec_walk_down d (split_dot p) of Some v \<Rightarrow> v | None \<Rightarrow> JNull)
   \<and> join_dot (split_dot p) = p
   \<and> (\<forall>seg \<in> set (split_dot p). CHR ''.'' \<notin> set seg)"
  by (simp add: search_context_path_def path_loop_walk join_split_dot split_dot_no_dot)

theorem search_context_path_walks_down_witness:
  "split_dot ''a.b.c'' = [''a'', ''b'', ''c'']
   \<and> spec_walk_down doc_abc (split_dot ''a.b.c'') = Some (JInt 1)
   \<and> search_context_path doc_abc ''a.b.c'' = JInt 1
   \<and> join_dot (split_dot ''a.b.c'') = ''a.b.c''"
  using search_context_path_walks_down [of doc_abc "''a.b.c''"]
  by (simp add: doc_abc_def)

lemma search_context_path_examples:
  "search_context_path doc_abc ''a.b.c'' = JInt 1"
  "search_context_path doc_abc ''a.x.c'' = JNull"
  "search_context_path (JObj [(''a'', JArr [JObj [(''b'', JInt 1)]])]) ''a.b'' = JNull"
  by (simp_all add: search_context_path_def doc_abc_def dict_get_def)

subsection \<open>The two searches on documents with at most one occurrence of the key\<close>

lemma occurrences_list_append:
  "occurrences_list key (xs @ ys) = occurrences_list key xs @ occurrences_list key ys"
  by (induction xs) simp_all

lemma occurrences_not_container: "\<not> is_container v \<Longrightarrow> occurrences key v = []"
  by (cases v) simp_all

lemma mset_occurrences_rev:
  "mset (occurrences_list key (rev xs)) = mset (occurrences_list key xs)"
  by (induction xs) (simp_all add: occurrences_list_append)

lemma mset_occurrences_filter:
  "mset (occurrences_list key (filter is_container xs)) = mset (occurrences_list key xs)"
  by (induction xs) (simp_all add: occurrences_not_container)

lemma mset_occurrences_pushed:
  "mset (occurrences_list key (rev (filter is_container xs) @ stack)) =
   mset (occurrences_list key xs) + mset (occurrences_list key stack)"
  by (simp add: occurrences_list_append mset_occurrences_rev mset_occurrences_filter)

lemma search_context_none:
  "occurrences key d = [] \<Longrightarrow> search_context_unbounded d key = JNull"
  and search_context_loop_none:
  "occurrences_list key xs = [] \<Longrightarrow> search_context_unbounded_loop xs key = JNull"
  by (induction d key and xs key rule: search_context_unbounded_search_context_unbounded_loop.induct)
     (simp_all split: if_splits)

lemma search_context_single:
  "occurrences key d = [v] \<Longrightarrow> search_context_unbounded d key = v"
  and search_context_loop_single:
  "occurrences_list key xs = [v] \<Longrightarrow> search_context_unbounded_loop xs key = v"
proof (induction d key and xs key rule: search_context_unbounded_search_context_unbounded_loop.induct)
  case (5 x rest key)
  from "5.prems" consider "occurrences key x = [v]" "occurrences_list key rest = []"
    | "occurrences key x = []" "occurrences_list key rest = [v]"
    by (auto simp: append_eq_Cons_conv)
  then show ?case
  proof cases
    case 1
    then have "search_context_unbounded x key = v" "search_context_unbounded_loop rest key = JNull"
      using "5.IH"(1) search_context_loop_none by auto
    then show ?thesis by (simp add: Let_def)
  next
    case 2
    then have "search_context_unbounded x key = JNull" using search_context_none by blast
    then show ?thesis using 2 "5.IH"(2) by (simp add: Let_def)
  qed
qed (simp_all split: if_splits)

lemma iterative_loop_none:
  "occurrences_list key stack = [] \<Longrightarrow> search_context_iterative_loop stack key = JNull"
proof (induction stack key rule: search_context_iterative_loop.induct)
  case (1 key)
  show ?case by simp
next
  case (2 current stack key)
  show ?case
  proof (cases current)
    case (JArr xs)
    have "mset (occurrences_list key (rev (filter is_container xs) @ stack)) = {#}"
      using "2.prems" JArr by (simp add: mset_occurrences_pushed)
    then show ?thesis using "2.IH" JArr by simp
  next
    case (JObj kvs)
    have nk: "key \<notin> set (map fst kvs)" using "2.prems" JObj by (auto split: if_splits)
    have "mset (occurrences_list key (rev (filter is_container (map snd kvs)) @ stack)) = {#}"
      using "2.prems" JObj nk by (simp add: mset_occurrences_pushed)
    then show ?thesis using "2.IH" JObj nk by simp
  qed (use 2 in simp_all)
qed

lemma iterative_loop_single:
  "mset (occurrences_list key stack) = {#v#} \<Longrightarrow>
   search_context_iterative_loop stack key = v"
proof (induction stack key rule: search_context_iterative_loop.induct)
  case (1 key)
  then show ?case by simp
next
  case (2 current stack key)
  show ?case
  proof (cases current)
    case (JArr xs)
    have "mset (occurrences_list key (rev (filter is_container xs) @ stack)) = {#v#}"
      using "2.prems" JArr by (simp add: mset_occurrences_pushed)
    then show ?thesis using "2.IH" JArr by simp
  next
    case (JObj kvs)
    show ?thesis
    proof (cases "key \<in> set (map fst kvs)")
      case True
      then have "add_mset (dict_get kvs key)
          (mset (occurrences_list key (map snd kvs)) + mset (occurrences_list key stack))
          = {#v#}"
        using "2.prems" JObj by simp
      then have "dict_get kvs key = v" by (metis add_mset_eq_single)
      then show ?thesis using JObj True by simp
    next
      case False
      have "mset (occurrences_list key (rev (filter is_container (map snd kvs)) @ stack))
          = {#v#}"
        using "2.prems" JObj False by (simp add: mset_occurrences_pushed)
      then show ?thesis using "2.IH" JObj False by simp
    qed
  qed (use 2 in simp_all)
qed

subsection \<open>The recursion limit\<close>

lemma height_positive: "0 < height d"
  by (cases d) simp_all

lemma search_context_within_limit:
  "height d \<le> frames \<Longrightarrow> search_context frames d key = Inr (search_context_unbounded d key)"
  and search_context_loop_within_limit:
  "height_list xs \<le> frames \<Longrightarrow>
   search_context_loop frames xs key = Inr (search_context_unbounded_loop xs key)"
proof (induction frames d key and frames xs key rule: search_context_search_context_loop.induct)
  case (1 json_obj key)
  then show ?case using height_positive [of json_obj] by simp
qed (simp_all add: Let_def)

lemma search_context_raises_or_agrees:
  "search_context frames d key = Inl RecursionError
   \<or> search_context frames d key = Inr (search_context_unbounded d key)"
  and search_context_loop_raises_or_agrees:
  "search_context_loop frames xs key = Inl RecursionError
   \<or> search_context_loop frames xs key = Inr (search_context_unbounded_loop xs key)"
  by (induction frames d key and frames xs key rule: search_context_search_context_loop.induct)
     (auto simp: Let_def)

lemma occurrences_nest: "occurrences ''k'' (nest n) = [JInt 1]"
  by (induction n) (simp_all add: dict_get_def)

lemma search_context_nest:
  "search_context frames (nest n) ''k'' =
     (if n < frames then Inr (JInt 1) else Inl RecursionError)"
proof (induction n arbitrary: frames)
  case 0
  show ?case by (cases frames) (simp_all add: dict_get_def)
next
  case (Suc n)
  show ?case
  proof (cases frames)
    case 0
    then show ?thesis by simp
  next
    case (Suc m)
    then show ?thesis using Suc.IH [of m] by simp
  qed
qed

lemma search_context_iterative_nest: "search_context_iterative (nest n) ''k'' = JInt 1"
  using iterative_loop_single [of "''k''" "[nest n]" "JInt 1"]
  by (simp add: search_context_iterative_def occurrences_nest)

text \<open>
  C7, as the code has it. On every document in which the searched key occurs at most
  once and whose nesting is within the calls the recursion limit still allows, the
  recursive search returns what the iterative search returns: the value stored under
  the key when it occurs, the absent value \<open>None\<close> otherwise. Whatever the nesting, on
  such a document the recursive search either returns that same result or raises
  \<^verbatim>\<open>RecursionError\<close>; the iterative search has no such limit.
\<close>

theorem search_context_iterative_equivalent:
  assumes "length (occurrences key d) \<le> 1"
  shows "search_context_iterative d key = (case occurrences key d of [] \<Rightarrow> JNull | v # _ \<Rightarrow> v)
       \<and> (height d \<le> frames \<longrightarrow>
            search_context frames d key = Inr (search_context_iterative d key))
       \<and> (search_context frames d key = Inl RecursionError
            \<or> search_context frames d key = Inr (search_context_iterative d key))"
proof -
  have e: "search_context_iterative d key = search_context_unbounded d key
      \<and> search_context_unbounded d key = (case occurrences key d of [] \<Rightarrow> JNull | v # _ \<Rightarrow> v)"
  proof (cases "occurrences key d")
    case Nil
    then show ?thesis
      using search_context_none [of key d] iterative_loop_none [of key "[d]"]
      by (simp add: search_context_iterative_def)
  next
    case (Cons v vs)
    then have "occurrences key d = [v]" using assms by simp
    then show ?thesis
      using search_context_single [of key d v] iterative_loop_single [of key "[d]" v]
      by (simp add: search_context_iterative_def)
  qed
  show ?thesis
    using e search_context_within_limit [of d frames key]
      search_context_raises_or_agrees [of frames d key]
    by auto
qed

theorem search_context_iterative_equivalent_witness:
  "length (occurrences ''c'' doc_abc) \<le> 1
   \<and> height doc_abc \<le> 1000
   \<and> search_context_iterative doc_abc ''c'' = JInt 1
   \<and> search_context 1000 doc_abc ''c'' = Inr (JInt 1)"
proof -
  have h: "length (occurrences ''c'' doc_abc) \<le> 1"
    by (simp add: doc_abc_def)
  have o: "occurrences ''c'' doc_abc = [JInt 1]"
    by (simp add: doc_abc_def dict_get_def)
  have d: "height doc_abc \<le> 1000"
    by (simp add: doc_abc_def)
  show ?thesis
    using h o d search_context_iterative_equivalent [OF h, of 1000] by simp
qed

text \<open>
  The claim as stated fails on a deep document. In \<open>nest 1500\<close> the key \<^verbatim>\<open>k\<close> occurs once,
  below 1500 mappings. The iterative search returns its value; the recursive search,
  called with 1000 calls left, raises \<^verbatim>\<open>RecursionError\<close>.
\<close>

theorem search_context_recursion_counterexample:
  "length (occurrences ''k'' (nest 1500)) \<le> 1
   \<and> search_context_iterative (nest 1500) ''k'' = JInt 1
   \<and> search_context 1000 (nest 1500) ''k'' = Inl RecursionError"
  by (simp add: occurrences_nest search_context_iterative_nest search_context_nest)

subsection \<open>The absent value and stored values\<close>

lemma search_context_stored:
  "occurrences key d \<noteq> [] \<Longrightarrow> JNull \<notin> set (occurrences key d) \<Longrightarrow>
   search_context_unbounded d key \<in> set (occurrences key d)"
  and search_context_loop_stored:
  "occurrences_list key xs \<noteq> [] \<Longrightarrow> JNull \<notin> set (occurrences_list key xs) \<Longrightarrow>
   search_context_unbounded_loop xs key \<in> set (occurrences_list key xs)"
proof (induction d key and xs key rule: search_context_unbounded_search_context_unbounded_loop.induct)
  case (1 kvs key)
  then show ?case by (cases "key \<in> set (map fst kvs)") simp_all
next
  case (5 x rest key)
  show ?case
  proof (cases "occurrences key x = []")
    case True
    then have "search_context_unbounded x key = JNull" by (rule search_context_none)
    then show ?thesis using True "5.IH"(2) "5.prems" by (simp add: Let_def)
  next
    case False
    then have m: "search_context_unbounded x key \<in> set (occurrences key x)"
      using "5.IH"(1) "5.prems" by simp
    then have "search_context_unbounded x key \<noteq> JNull" using "5.prems"(2) by auto
    then show ?thesis using m by (simp add: Let_def)
  qed
qed simp_all

lemma iterative_loop_stored:
  "occurrences_list key stack \<noteq> [] \<Longrightarrow>
   search_context_iterative_loop stack key \<in> set (occurrences_list key stack)"
proof (induction stack key rule: search_context_iterative_loop.induct)
  case (1 key)
  then show ?case by simp
next
  case (2 current stack key)
  show ?case
  proof (cases current)
    case (JArr xs)
    let ?new = "rev (filter is_container xs) @ stack"
    have "mset (occurrences_list key ?new) = mset (occurrences_list key (current # stack))"
      using JArr by (simp add: mset_occurrences_pushed)
    then have e: "set (occurrences_list key ?new) = set (occurrences_list key (current # stack))"
      by (rule mset_eq_setD)
    then have "occurrences_list key ?new \<noteq> []"
      using "2.prems" by (metis set_empty)
    then have "search_context_iterative_loop ?new key \<in> set (occurrences_list key ?new)"
      using "2.IH"(6) JArr by simp
    then have "search_context_iterative_loop ?new key
        \<in> set (occurrences_list key (current # stack))"
      unfolding e .
    moreover have "search_context_iterative_loop (current # stack) key
        = search_context_iterative_loop ?new key"
      using JArr by simp
    ultimately show ?thesis by simp
  next
    case (JObj kvs)
    show ?thesis
    proof (cases "key \<in> set (map fst kvs)")
      case True
      then show ?thesis using JObj by simp
    next
      case False
      let ?new = "rev (filter is_container (map snd kvs)) @ stack"
      have "mset (occurrences_list key ?new) = mset (occurrences_list key (current # stack))"
        using JObj False by (simp add: mset_occurrences_pushed)
      then have e: "set (occurrences_list key ?new) = set (occurrences_list key (current # stack))"
        by (rule mset_eq_setD)
      then have "occurrences_list key ?new \<noteq> []"
        using "2.prems" by (metis set_empty)
      then have "search_context_iterative_loop ?new key \<in> set (occurrences_list key ?new)"
        using "2.IH"(7) JObj False by simp
      then have "search_context_iterative_loop ?new key
          \<in> set (occurrences_list key (current # stack))"
        unfolding e .
      moreover have "search_context_iterative_loop (current # stack) key
          = search_context_iterative_loop ?new key"
        using JObj False by simp
      ultimately show ?thesis by simp
    qed
  qed (use 2 in simp_all)
qed

text \<open>
  C10, as the code has it. The absent value the lookups return is \<^verbatim>\<open>None\<close>, the very
  value a JSON \<^verbatim>\<open>null\<close> is loaded as, so it is not distinct from every data value. For
  every document that has the searched key and stores no \<^verbatim>\<open>null\<close> under it,
  \<open>search_context_iterative\<close> returns a value stored under that key, which is not the
  absent value, and so does \<open>search_context\<close> when the nesting of the document is within
  the calls the recursion limit still allows. For every document that has the full
  dotted path, \<open>search_context_path\<close> returns the stored value, which is the absent value
  exactly when the stored value is \<^verbatim>\<open>null\<close>.
\<close>

theorem lookup_returns_stored_value:
  "(occurrences key d \<noteq> [] \<and> JNull \<notin> set (occurrences key d) \<longrightarrow>
      search_context_iterative d key \<in> set (occurrences key d)
      \<and> search_context_iterative d key \<noteq> JNull)
   \<and> (occurrences key d \<noteq> [] \<and> JNull \<notin> set (occurrences key d) \<and> height d \<le> frames \<longrightarrow>
      (\<exists>v. search_context frames d key = Inr v \<and> v \<in> set (occurrences key d) \<and> v \<noteq> JNull))
   \<and> (spec_walk_down d (split_dot p) = Some v \<longrightarrow>
      search_context_path d p = v \<and> (search_context_path d p = JNull \<longleftrightarrow> v = JNull))"
proof (intro conjI impI)
  assume h: "occurrences key d \<noteq> [] \<and> JNull \<notin> set (occurrences key d)"
  show i: "search_context_iterative d key \<in> set (occurrences key d)"
    using h iterative_loop_stored [of key "[d]"] by (simp add: search_context_iterative_def)
  show "search_context_iterative d key \<noteq> JNull" using h i by metis
next
  assume h: "occurrences key d \<noteq> [] \<and> JNull \<notin> set (occurrences key d) \<and> height d \<le> frames"
  have r: "search_context_unbounded d key \<in> set (occurrences key d)"
    using h search_context_stored by blast
  then have "search_context_unbounded d key \<noteq> JNull" using h by metis
  moreover have "search_context frames d key = Inr (search_context_unbounded d key)"
    using h search_context_within_limit by blast
  ultimately show "\<exists>v. search_context frames d key = Inr v \<and> v \<in> set (occurrences key d)
      \<and> v \<noteq> JNull"
    using r by blast
next
  assume w: "spec_walk_down d (split_dot p) = Some v"
  then show e: "search_context_path d p = v"
    by (simp add: search_context_path_def path_loop_walk)
  show "search_context_path d p = JNull \<longleftrightarrow> v = JNull" using e by simp
qed

theorem lookup_returns_stored_value_witness:
  "occurrences ''c'' doc_abc = [JInt 1]
   \<and> height doc_abc \<le> 1000
   \<and> search_context 1000 doc_abc ''c'' = Inr (JInt 1)
   \<and> search_context_iterative doc_abc ''c'' = JInt 1
   \<and> spec_walk_down doc_abc (split_dot ''a.b.c'') = Some (JInt 1)
   \<and> search_context_path doc_abc ''a.b.c'' = JInt 1"
proof -
  have o: "occurrences ''c'' doc_abc = [JInt 1]"
    by (simp add: doc_abc_def dict_get_def)
  have d: "height doc_abc \<le> 1000"
    by (simp add: doc_abc_def)
  have w: "spec_walk_down doc_abc (split_dot ''a.b.c'') = Some (JInt 1)"
    by (simp add: doc_abc_def)
  show ?thesis
    using o d w lookup_returns_stored_value [of "''c''" doc_abc 1000 "''a.b.c''" "JInt 1"]
    by auto
qed

text \<open>
  The claim as stated fails where the stored value is \<^verbatim>\<open>null\<close>: the document
  \<^verbatim>\<open>{"k": null}\<close> has the key \<^verbatim>\<open>k\<close>, and each of the three lookups returns for it what
  it returns for the empty document \<^verbatim>\<open>{}\<close>, the absent value.
\<close>

theorem lookup_null_counterexample:
  "occurrences ''k'' doc_null_k = [JNull]
   \<and> spec_walk_down doc_null_k (split_dot ''k'') = Some JNull
   \<and> search_context 1000 doc_null_k ''k'' = Inr JNull
   \<and> search_context_iterative doc_null_k ''k'' = JNull
   \<and> search_context_path doc_null_k ''k'' = JNull
   \<and> search_context 1000 (JObj []) ''k'' = Inr JNull
   \<and> search_context_iterative (JObj []) ''k'' = JNull
   \<and> search_context_path (JObj []) ''k'' = JNull"
proof -
  have "height doc_null_k \<le> 1000" "height (JObj []) \<le> 1000"
    by (simp_all add: doc_null_k_def)
  then have "search_context 1000 doc_null_k ''k'' = Inr (search_context_unbounded doc_null_k ''k'')"
    "search_context 1000 (JObj []) ''k'' = Inr (search_context_unbounded (JObj []) ''k'')"
    by (simp_all only: search_context_within_limit)
  then show ?thesis
    by (simp add: doc_null_k_def search_context_iterative_def search_context_path_def
        dict_get_def)
qed

text \<open>With two occurrences the strategies do return different matches.\<close>

lemma search_strategies_differ:
  "search_context 1000 doc_two_k ''k'' = Inr (JInt 1)"
  "search_context_iterative doc_two_k ''k'' = JInt 2"
proof -
  have "height doc_two_k \<le> 1000" by (simp add: doc_two_k_def)
  then have "search_context 1000 doc_two_k ''k'' = Inr (search_context_unbounded doc_two_k ''k'')"
    by (simp only: search_context_within_limit)
  then show "search_context 1000 doc_two_k ''k'' = Inr (JInt 1)"
    by (simp add: doc_two_k_def dict_get_def)
  show "search_context_iterative doc_two_k ''k'' = JInt 2"
    by (simp add: doc_two_k_def search_context_iterative_def dict_get_def)
qed

section \<open>Properties of the context protocol\<close>

text \<open>
  C1, as the code has it. For every well-formed JSON object piped on standard input,
  \<open>load_context\<close> returns that object. When standard input is interactive, or cannot be
  read, or its content is not well-formed JSON, \<open>load_context\<close> returns \<^verbatim>\<open>None\<close>, not the
  empty mapping; it is the shim's \<^verbatim>\<open>_ensure_context_loaded\<close> that puts the empty mapping
  in its place.
\<close>

theorem load_context_result:
  "(stdin_isatty w = Inr False \<and> stdin_json w = Inr (JObj kvs) \<longrightarrow>
      load_context w = JObj kvs \<and> ensure_context_loaded w = JObj kvs)
   \<and> (stdin_isatty w \<noteq> Inr False \<or> stdin_json w = Inl e \<longrightarrow>
      load_context w = JNull \<and> ensure_context_loaded w = JObj [])"
  by (auto simp: load_context_def ensure_context_loaded_def loads_base_context_def
      split: sum.splits)

theorem load_context_result_witness:
  "stdin_isatty (bare_world \<lparr> stdin_isatty := Inr False, stdin_json := Inr doc_abc \<rparr>) = Inr False
   \<and> load_context (bare_world \<lparr> stdin_isatty := Inr False, stdin_json := Inr doc_abc \<rparr>) = doc_abc
   \<and> stdin_isatty bare_world \<noteq> Inr False
   \<and> load_context bare_world = JNull
   \<and> ensure_context_loaded bare_world = JObj []"
  using load_context_result
    [of "bare_world \<lparr> stdin_isatty := Inr False, stdin_json := Inr doc_abc \<rparr>"
        "[(''a'', JObj [(''b'', JObj [(''c'', JInt 1)])])]" OSError]
    load_context_result [of bare_world "[]" OSError]
  by (simp add: bare_world_def doc_abc_def)

text \<open>
  The claim as stated fails: with an interactive standard input, and with piped text that
  is not JSON, \<open>load_context\<close> returns \<^verbatim>\<open>None\<close> and not \<^verbatim>\<open>{}\<close>.
\<close>

theorem load_context_counterexample:
  "load_context bare_world \<noteq> JObj []
   \<and> load_context (bare_world \<lparr> stdin_isatty := Inr False, stdin_json := Inl JSONDecodeError \<rparr>)
       \<noteq> JObj []"
  by (simp add: load_context_def bare_world_def)

section \<open>Properties of the integration config resolver\<close>

lemma read_config_file_usable:
  "(\<exists>pair. read_config_file fs p = Inr (Some pair)) \<longleftrightarrow> candidate_usable fs p"
proof (cases "fs p")
  case Missing
  then show ?thesis by (simp add: read_config_file_def candidate_usable_def)
next
  case (Present r)
  show ?thesis
  proof (cases r)
    case (Inl e)
    then show ?thesis using Present by (simp add: read_config_file_def candidate_usable_def)
  next
    case (Inr config)
    then show ?thesis using Present
      by (cases config) (auto simp: read_config_file_def candidate_usable_def dict_get_def)
  qed
qed

lemma get_secauto_config_loop_no_credential:
  "\<forall>p \<in> set ps. \<not> candidate_usable fs p \<Longrightarrow>
   get_secauto_config_loop fs ps = (JStr ''http://localhost:8080'', JNull)"
proof (induction ps)
  case Nil
  show ?case by simp
next
  case (Cons p ps)
  then have "\<not> (\<exists>pair. read_config_file fs p = Inr (Some pair))"
    using read_config_file_usable [of fs p] by auto
  then show ?case using Cons by (auto split: sum.splits option.splits)
qed

lemma get_secauto_config_loop_credential:
  "truthy (snd (get_secauto_config_loop fs ps)) \<longleftrightarrow> (\<exists>p \<in> set ps. candidate_usable fs p)"
proof (induction ps)
  case Nil
  show ?case by simp
next
  case (Cons p ps)
  show ?case
  proof (cases "candidate_usable fs p")
    case True
    then obtain pair where r: "read_config_file fs p = Inr (Some pair)"
      using read_config_file_usable by blast
    then have "truthy (snd pair)"
      by (auto simp: read_config_file_def split: local_file.splits sum.splits if_splits)
    then show ?thesis using True r by simp
  next
    case False
    then have "\<not> (\<exists>pair. read_config_file fs p = Inr (Some pair))"
      using read_config_file_usable [of fs p] by auto
    then show ?thesis using False Cons by (auto split: sum.splits option.splits)
  qed
qed

text \<open>
  C5. \<open>get_secauto_config\<close> resolves no credential exactly when no candidate file
  yields the coordinates (each is missing, unreadable, unparseable, or lacks a non-empty
  address or credential). In that case its credential is \<^verbatim>\<open>None\<close>, and
  \<open>get_integration_config\<close> returns the absent result \<^verbatim>\<open>None\<close> for every name without
  sending any request.
\<close>

theorem no_credential_no_request:
  "(\<not> truthy (snd (get_secauto_config w))
      \<longleftrightarrow> (\<forall>p \<in> set config_paths. \<not> candidate_usable (files w) p))
   \<and> (\<not> truthy (snd (get_secauto_config w)) \<longrightarrow>
        get_secauto_config w = (JStr ''http://localhost:8080'', JNull)
        \<and> get_integration_config w name = (Inr JNull, []))"
proof -
  have e: "\<not> truthy (snd (get_secauto_config w))
      \<longleftrightarrow> (\<forall>p \<in> set config_paths. \<not> candidate_usable (files w) p)"
    using get_secauto_config_loop_credential [of "files w" config_paths]
    by (simp add: get_secauto_config_def)
  have "get_secauto_config w = (JStr ''http://localhost:8080'', JNull)
        \<and> get_integration_config w name = (Inr JNull, [])"
    if "\<not> truthy (snd (get_secauto_config w))"
    using that e get_secauto_config_loop_no_credential [of config_paths "files w"]
    by (simp add: get_secauto_config_def get_integration_config_def)
  then show ?thesis using e by blast
qed

theorem no_credential_no_request_witness:
  "\<not> truthy (snd (get_secauto_config bare_world))
   \<and> get_secauto_config bare_world = (JStr ''http://localhost:8080'', JNull)
   \<and> get_integration_config bare_world ''virustotal'' = (Inr JNull, [])"
proof -
  have "\<forall>p \<in> set config_paths. \<not> candidate_usable (files bare_world) p"
    by (simp add: candidate_usable_def bare_world_def)
  then show ?thesis using no_credential_no_request [of bare_world "''virustotal''"] by blast
qed

text \<open>
  The failures the resolver does turn into the absent result: an exception of the
  request, a status other than 200, a body that \<^verbatim>\<open>response.json()\<close> rejects with a
  \<open>RequestException\<close>, and a dict without a true success flag or without a payload.
\<close>

lemma get_integration_config_degrades:
  assumes "http_get w (integration_url w (fst (get_secauto_config w)) name)
             (snd (get_secauto_config w)) = r"
    and "r = Inl RequestException
       \<or> (\<exists>resp. r = Inr resp \<and> (status_code resp \<noteq> 200
             \<or> json_body resp = Inl RequestException
             \<or> (\<exists>kvs. json_body resp = Inr (JObj kvs)
                   \<and> \<not> (truthy (dict_get kvs ''success'') \<and> truthy (dict_get kvs ''integration'')))))"
  shows "fst (get_integration_config w name) = Inr JNull"
  using assms
  by (auto simp: get_integration_config_def except_request_exception_def
      integration_response_def dict_get_def split: prod.splits option.splits)

text \<open>
  C4 fails on the code. With a credential in the local file and a server that answers
  200 with the JSON document \<^verbatim>\<open>[]\<close> (a body with no success flag and no payload),
  \<^verbatim>\<open>data.get\<close> raises \<^verbatim>\<open>AttributeError\<close>, which the handler for \<open>RequestException\<close> does
  not catch: the exception reaches the caller.
\<close>

theorem get_integration_config_raises:
  "get_integration_config list_body_world ''virustotal'' =
     (Inl AttributeError,
      [HttpGet ''http://localhost:8080/integrations/virustotal'' (JStr ''K'')])"
  by (simp add: get_integration_config_def get_secauto_config_def config_paths_def
      read_config_file_def list_body_world_def bare_world_def files_with_config_def
      local_config_def integration_url_def format_value_def integration_response_def
      except_request_exception_def)

section \<open>Properties of the capability shim\<close>

lemma bind_attributes_raises:
  "fst (bind_attributes m names b) =
     (if \<forall>n \<in> set names. has_attribute m n then None else Some AttributeError)"
proof (induction names arbitrary: b)
  case Nil
  show ?case by simp
next
  case (Cons name names)
  show ?case
  proof (cases "m name")
    case None
    then show ?thesis by (simp add: has_attribute_def)
  next
    case (Some f)
    then show ?thesis by (simp add: Cons.IH has_attribute_def)
  qed
qed

lemma bind_attributes_bindings:
  "snd (bind_attributes m names b) n =
     (if n \<in> set (takeWhile (has_attribute m) names) then map_option Function (m n)
      else b n)"
proof (induction names arbitrary: b)
  case Nil
  show ?case by simp
next
  case (Cons name names)
  show ?case
  proof (cases "m name")
    case None
    then show ?thesis by (simp add: has_attribute_def)
  next
    case (Some f)
    then show ?thesis by (simp add: Cons.IH has_attribute_def)
  qed
qed

lemma reload_keeps_last_modified_time:
  "last_modified_time (snd (reload_soar_api w s)) = last_modified_time s"
  by (simp add: reload_soar_api_def import_SoarBaseAPI_def Let_def
      split: sum.splits prod.splits option.splits)

lemma reload_import_failure:
  "soar_api_source w = Inl e \<Longrightarrow>
   reload_soar_api w s = (False, s \<lparr> sys_modules := (sys_modules s)(''SoarBaseAPI'' := None) \<rparr>)"
  by (simp add: reload_soar_api_def import_SoarBaseAPI_def Let_def)

lemma reload_result:
  assumes "soar_api_source w = Inr m"
  shows "fst (reload_soar_api w s) = (\<forall>n \<in> set reload_names. has_attribute m n)"
proof -
  let ?b0 = "(builtins s)(''SoarBaseAPI'' \<mapsto> Module m)"
  have "fst (reload_soar_api w s) = (fst (bind_attributes m reload_names ?b0) = None)"
    using assms
    by (cases "bind_attributes m reload_names ?b0")
       (simp add: reload_soar_api_def import_SoarBaseAPI_def Let_def split: option.splits)
  then show ?thesis by (simp add: bind_attributes_raises)
qed

lemma reload_bindings:
  assumes "soar_api_source w = Inr m"
  shows "builtins (snd (reload_soar_api w s)) n =
          (if n \<in> set (takeWhile (has_attribute m) reload_names)
           then map_option Function (m n)
           else ((builtins s)(''SoarBaseAPI'' \<mapsto> Module m)) n)"
proof -
  let ?b0 = "(builtins s)(''SoarBaseAPI'' \<mapsto> Module m)"
  have "builtins (snd (reload_soar_api w s)) = snd (bind_attributes m reload_names ?b0)"
    using assms
    by (cases "bind_attributes m reload_names ?b0")
       (simp add: reload_soar_api_def import_SoarBaseAPI_def Let_def split: option.splits)
  then show ?thesis by (simp only: bind_attributes_bindings)
qed

lemma takeWhile_all: "\<forall>x \<in> set xs. P x \<Longrightarrow> takeWhile P xs = xs"
  by (induction xs) simp_all

lemma initial_import_keeps_last_modified_time:
  "last_modified_time (snd (initial_import w s)) = last_modified_time s"
  by (simp add: initial_import_def import_SoarBaseAPI_def except_import_error_def Let_def
      split: sum.splits prod.splits option.splits)

lemma check_and_reload_records:
  "soar_api_mtime w = Some t \<Longrightarrow>
   \<exists>t0. last_modified_time (check_and_reload w s) = Some t0 \<and> t \<le> t0"
  by (cases "last_modified_time s")
     (auto simp: check_and_reload_def reload_keeps_last_modified_time)

lemma check_and_reload_twice:
  "check_and_reload w (check_and_reload w s) = check_and_reload w s"
proof (cases "soar_api_mtime w")
  case None
  then show ?thesis by (simp add: check_and_reload_def)
next
  case (Some t)
  then obtain t0 where "last_modified_time (check_and_reload w s) = Some t0" "t \<le> t0"
    using check_and_reload_records by blast
  then show ?thesis using Some
    by (simp add: check_and_reload_def [of w "check_and_reload w s"])
qed

text \<open>
  C8, as the code has it. \<open>check_and_reload\<close> compares the modification time of the
  module file with the time recorded by an earlier call of \<open>check_and_reload\<close>; binding
  the functions records nothing, so the first call that sees the file only records its
  time and rebinds nothing. When a time is recorded and the file's time is greater, the
  call records the new time and runs \<open>reload_soar_api\<close>, which rebinds every exported
  function when the re-import succeeds and the module has them all. When the file is
  absent or not newer than the recorded time the call changes nothing, and a second call
  with no further change of the file changes nothing.
\<close>

theorem check_and_reload_behaviour:
  "(soar_api_mtime w = None \<longrightarrow> check_and_reload w s = s)
   \<and> (soar_api_mtime w = Some t \<and> last_modified_time s = None \<longrightarrow>
        check_and_reload w s = s \<lparr> last_modified_time := Some t \<rparr>)
   \<and> (soar_api_mtime w = Some t \<and> last_modified_time s = Some t0 \<and> t \<le> t0 \<longrightarrow>
        check_and_reload w s = s)
   \<and> (soar_api_mtime w = Some t \<and> last_modified_time s = Some t0 \<and> t0 < t \<longrightarrow>
        check_and_reload w s = snd (reload_soar_api w (s \<lparr> last_modified_time := Some t \<rparr>))
        \<and> last_modified_time (check_and_reload w s) = Some t)
   \<and> (soar_api_mtime w = Some t \<and> last_modified_time s = Some t0 \<and> t0 < t
        \<and> soar_api_source w = Inr m \<and> (\<forall>n \<in> set reload_names. has_attribute m n) \<longrightarrow>
        (\<forall>n \<in> set reload_names. builtins (check_and_reload w s) n = map_option Function (m n))
        \<and> builtins (check_and_reload w s) ''SoarBaseAPI'' = Some (Module m))
   \<and> check_and_reload w (check_and_reload w s) = check_and_reload w s
   \<and> last_modified_time (snd (initial_import w s)) = last_modified_time s
   \<and> last_modified_time (snd (reload_soar_api w s)) = last_modified_time s"
proof -
  have 1: "soar_api_mtime w = None \<longrightarrow> check_and_reload w s = s"
    by (simp add: check_and_reload_def)
  have 2: "soar_api_mtime w = Some t \<and> last_modified_time s = None \<longrightarrow>
        check_and_reload w s = s \<lparr> last_modified_time := Some t \<rparr>"
    by (simp add: check_and_reload_def)
  have 3: "soar_api_mtime w = Some t \<and> last_modified_time s = Some t0 \<and> t \<le> t0 \<longrightarrow>
        check_and_reload w s = s"
    by (simp add: check_and_reload_def)
  have 4: "soar_api_mtime w = Some t \<and> last_modified_time s = Some t0 \<and> t0 < t \<longrightarrow>
        check_and_reload w s = snd (reload_soar_api w (s \<lparr> last_modified_time := Some t \<rparr>))
        \<and> last_modified_time (check_and_reload w s) = Some t"
    by (simp add: check_and_reload_def reload_keeps_last_modified_time)
  have 5: "soar_api_mtime w = Some t \<and> last_modified_time s = Some t0 \<and> t0 < t
        \<and> soar_api_source w = Inr m \<and> (\<forall>n \<in> set reload_names. has_attribute m n) \<longrightarrow>
        (\<forall>n \<in> set reload_names. builtins (check_and_reload w s) n = map_option Function (m n))
        \<and> builtins (check_and_reload w s) ''SoarBaseAPI'' = Some (Module m)"
  proof (intro impI conjI)
    assume h: "soar_api_mtime w = Some t \<and> last_modified_time s = Some t0 \<and> t0 < t
        \<and> soar_api_source w = Inr m \<and> (\<forall>n \<in> set reload_names. has_attribute m n)"
    then have c: "check_and_reload w s
        = snd (reload_soar_api w (s \<lparr> last_modified_time := Some t \<rparr>))"
      by (simp add: check_and_reload_def)
    have a: "takeWhile (has_attribute m) reload_names = reload_names"
      using h by (simp add: takeWhile_all)
    have src: "soar_api_source w = Inr m" using h by simp
    show "\<forall>n \<in> set reload_names.
        builtins (check_and_reload w s) n = map_option Function (m n)"
      by (simp add: c reload_bindings [OF src] a)
    have "''SoarBaseAPI'' \<notin> set reload_names" by (simp add: reload_names_def)
    then show "builtins (check_and_reload w s) ''SoarBaseAPI'' = Some (Module m)"
      by (simp add: c reload_bindings [OF src] a)
  qed
  show ?thesis
    using 1 2 3 4 5 check_and_reload_twice [of w s]
      initial_import_keeps_last_modified_time [of w s]
      reload_keeps_last_modified_time [of w s]
    by blast
qed

theorem check_and_reload_behaviour_witness:
  "soar_api_mtime (world_at 200 (module_version reload_names 2)) = Some 200
   \<and> last_modified_time (fresh_shim \<lparr> last_modified_time := Some 100 \<rparr>) = Some 100
   \<and> builtins (check_and_reload (world_at 200 (module_version reload_names 2))
        (fresh_shim \<lparr> last_modified_time := Some 100 \<rparr>)) ''search_context'' = Some (Function 2)
   \<and> last_modified_time (check_and_reload (world_at 200 (module_version reload_names 2))
        (fresh_shim \<lparr> last_modified_time := Some 100 \<rparr>)) = Some 200"
proof -
  let ?w = "world_at 200 (module_version reload_names 2)"
  let ?s = "fresh_shim \<lparr> last_modified_time := Some 100 \<rparr>"
  have h: "soar_api_mtime ?w = Some 200" "last_modified_time ?s = Some 100"
    "soar_api_source ?w = Inr (module_version reload_names 2)"
    "\<forall>n \<in> set reload_names. has_attribute (module_version reload_names 2) n"
    by (simp_all add: world_at_def bare_world_def module_version_def has_attribute_def)
  have n: "''search_context'' \<in> set reload_names"
    "module_version reload_names 2 ''search_context'' = Some 2"
    by (simp_all add: reload_names_def module_version_def)
  show ?thesis
    using h n check_and_reload_behaviour [of ?w ?s 200 100 "module_version reload_names 2"]
    by auto
qed

text \<open>
  The claim as stated fails at the first call. The functions are bound by the initial
  import while the file has modification time 100; the file is then replaced (time 200,
  version 2). The next \<open>check_and_reload\<close> only records the time: the functions of
  version 1 stay bound, after that call and after every later one.
\<close>

theorem check_and_reload_counterexample:
  "fst (initial_import (world_at 100 (module_version reload_names 1)) fresh_shim) = None
   \<and> builtins bound_shim ''search_context'' = Some (Function 1)
   \<and> last_modified_time bound_shim = None
   \<and> soar_api_mtime (world_at 200 (module_version reload_names 2)) = Some 200
   \<and> builtins (check_and_reload (world_at 200 (module_version reload_names 2)) bound_shim)
        ''search_context'' = Some (Function 1)
   \<and> builtins (check_and_reload (world_at 200 (module_version reload_names 2))
        (check_and_reload (world_at 200 (module_version reload_names 2)) bound_shim))
        ''search_context'' = Some (Function 1)"
proof -
  let ?w1 = "world_at 100 (module_version reload_names 1)"
  let ?w2 = "world_at 200 (module_version reload_names 2)"
  have i: "fst (initial_import ?w1 fresh_shim) = None"
    "builtins (snd (initial_import ?w1 fresh_shim)) ''search_context'' = Some (Function 1)"
    by (simp_all add: initial_import_def import_SoarBaseAPI_def world_at_def bare_world_def
        fresh_shim_def module_version_def reload_names_def initial_names_def cache_names_def
        Let_def split: prod.splits)
  have l: "last_modified_time bound_shim = None"
    by (simp add: bound_shim_def initial_import_keeps_last_modified_time fresh_shim_def)
  have m: "soar_api_mtime ?w2 = Some 200" by (simp add: world_at_def bare_world_def)
  have c: "check_and_reload ?w2 bound_shim = bound_shim \<lparr> last_modified_time := Some 200 \<rparr>"
    using l m by (simp add: check_and_reload_def)
  have b: "builtins bound_shim ''search_context'' = Some (Function 1)"
    using i(2) by (simp add: bound_shim_def)
  have "builtins (check_and_reload ?w2 bound_shim) ''search_context'' = Some (Function 1)"
    using b by (simp add: c)
  moreover have "check_and_reload ?w2 (check_and_reload ?w2 bound_shim)
      = check_and_reload ?w2 bound_shim"
    by (rule check_and_reload_twice)
  ultimately show ?thesis using i(1) b l m by simp
qed

text \<open>
  C9, as the code has it. \<open>reload_soar_api\<close> lets no exception out: it reports a failure
  by returning \<^verbatim>\<open>False\<close>. When the re-import itself fails, every binding made before is
  intact. When the re-imported module lacks one of the exported names, the bindings are
  not restored: the module object and the names before the missing one are bound to the
  new module, the other names keep their previous binding. In the initial import an
  \<^verbatim>\<open>ImportError\<close> is caught and reported on standard error, and no binding is made.
\<close>

theorem activation_failure_bindings:
  "(soar_api_source w = Inl e \<longrightarrow>
      fst (reload_soar_api w s) = False \<and> builtins (snd (reload_soar_api w s)) = builtins s)
   \<and> (soar_api_source w = Inr m \<longrightarrow>
      fst (reload_soar_api w s) = (\<forall>n \<in> set reload_names. has_attribute m n)
      \<and> (\<forall>n. builtins (snd (reload_soar_api w s)) n =
            (if n \<in> set (takeWhile (has_attribute m) reload_names)
             then map_option Function (m n)
             else if n = ''SoarBaseAPI'' then Some (Module m)
             else builtins s n)))
   \<and> (soar_api_source w = Inl ImportError \<and> sys_modules s ''SoarBaseAPI'' = None \<longrightarrow>
      initial_import w s = (None, s \<lparr> stderr_log := stderr_log s @ [ImportError] \<rparr>))"
proof (intro conjI impI allI)
  assume "soar_api_source w = Inl e"
  then show "fst (reload_soar_api w s) = False"
    and "builtins (snd (reload_soar_api w s)) = builtins s"
    by (simp_all add: reload_import_failure)
next
  assume "soar_api_source w = Inr m"
  then show "fst (reload_soar_api w s) = (\<forall>n \<in> set reload_names. has_attribute m n)"
    by (rule reload_result)
next
  fix n
  assume "soar_api_source w = Inr m"
  then show "builtins (snd (reload_soar_api w s)) n =
            (if n \<in> set (takeWhile (has_attribute m) reload_names)
             then map_option Function (m n)
             else if n = ''SoarBaseAPI'' then Some (Module m)
             else builtins s n)"
    by (simp add: reload_bindings)
next
  assume "soar_api_source w = Inl ImportError \<and> sys_modules s ''SoarBaseAPI'' = None"
  then show "initial_import w s = (None, s \<lparr> stderr_log := stderr_log s @ [ImportError] \<rparr>)"
    by (simp add: initial_import_def import_SoarBaseAPI_def except_import_error_def)
qed

theorem activation_failure_bindings_witness:
  "soar_api_source bare_world = Inl ImportError
   \<and> fst (reload_soar_api bare_world bound_shim) = False
   \<and> builtins (snd (reload_soar_api bare_world bound_shim)) = builtins bound_shim
   \<and> soar_api_source (world_at 200 (module_version repo_attributes 2))
       = Inr (module_version repo_attributes 2)
   \<and> fst (reload_soar_api (world_at 200 (module_version repo_attributes 2)) bound_shim) = False
   \<and> builtins (snd (reload_soar_api (world_at 200 (module_version repo_attributes 2)) bound_shim))
        ''get_integration_config'' = Some (Function 2)
   \<and> builtins (snd (reload_soar_api (world_at 200 (module_version repo_attributes 2)) bound_shim))
        ''get_cache'' = builtins bound_shim ''get_cache''
   \<and> initial_import bare_world fresh_shim = (None, fresh_shim \<lparr> stderr_log := [ImportError] \<rparr>)"
proof -
  let ?m = "module_version repo_attributes 2"
  let ?w = "world_at 200 ?m"
  have a: "soar_api_source bare_world = Inl ImportError" by (simp add: bare_world_def)
  have b: "soar_api_source ?w = Inr ?m" by (simp add: world_at_def bare_world_def)
  have t: "takeWhile (has_attribute ?m) reload_names =
      [''search_context'', ''search_context_iterative'', ''search_context_path'',
       ''load_context'', ''base_context'', ''return_context'', ''get_secauto_config'',
       ''get_integration_config'']"
    by (simp add: reload_names_def module_version_def repo_attributes_def has_attribute_def)
  have g: "?m ''get_integration_config'' = Some 2" "?m ''get_cache'' = None"
    "\<not> (\<forall>n \<in> set reload_names. has_attribute ?m n)"
    by (simp_all add: reload_names_def module_version_def repo_attributes_def
        has_attribute_def)
  have f: "sys_modules fresh_shim ''SoarBaseAPI'' = None" "stderr_log fresh_shim = []"
    by (simp_all add: fresh_shim_def)
  show ?thesis
    using a b g f
      activation_failure_bindings [of bare_world ImportError bound_shim ?m]
      activation_failure_bindings [of ?w ImportError bound_shim ?m]
      activation_failure_bindings [of bare_world ImportError fresh_shim ?m]
    by (simp add: t)
qed

text \<open>
  The claim as stated fails on the module of the repository itself, which defines no
  \<^verbatim>\<open>get_cache\<close>. A reload that finds it fails (\<^verbatim>\<open>False\<close>) after it has rebound
  \<^verbatim>\<open>search_context\<close>, so the namespace is not as it was before the attempt; and the initial
  import of that module raises \<^verbatim>\<open>AttributeError\<close>, which its handler for \<^verbatim>\<open>ImportError\<close>
  does not catch.
\<close>

theorem activation_failure_counterexample:
  "fst (reload_soar_api (world_at 200 (module_version repo_attributes 2)) bound_shim) = False
   \<and> builtins bound_shim ''search_context'' = Some (Function 1)
   \<and> builtins (snd (reload_soar_api (world_at 200 (module_version repo_attributes 2)) bound_shim))
        ''search_context'' = Some (Function 2)
   \<and> fst (initial_import (world_at 100 (module_version repo_attributes 1)) fresh_shim)
        = Some AttributeError"
proof -
  let ?m = "module_version repo_attributes 2"
  let ?w = "world_at 200 ?m"
  have b: "soar_api_source ?w = Inr ?m" by (simp add: world_at_def bare_world_def)
  have "\<not> (\<forall>n \<in> set reload_names. has_attribute ?m n)"
    by (simp add: reload_names_def module_version_def repo_attributes_def has_attribute_def)
  then have r: "fst (reload_soar_api ?w bound_shim) = False"
    using reload_result [OF b, of bound_shim] by simp
  have o: "builtins bound_shim ''search_context'' = Some (Function 1)"
    by (simp add: bound_shim_def initial_import_def import_SoarBaseAPI_def world_at_def
        bare_world_def fresh_shim_def module_version_def reload_names_def initial_names_def
        cache_names_def Let_def split: prod.splits)
  have "''search_context'' \<in> set (takeWhile (has_attribute ?m) reload_names)"
    "?m ''search_context'' = Some 2"
    by (simp_all add: reload_names_def module_version_def repo_attributes_def
        has_attribute_def)
  then have n: "builtins (snd (reload_soar_api ?w bound_shim)) ''search_context''
      = Some (Function 2)"
    using reload_bindings [OF b, of bound_shim "''search_context''"] by simp
  have i: "fst (initial_import (world_at 100 (module_version repo_attributes 1)) fresh_shim)
        = Some AttributeError"
    by (simp add: initial_import_def import_SoarBaseAPI_def world_at_def bare_world_def
        fresh_shim_def module_version_def repo_attributes_def initial_names_def
        cache_names_def except_import_error_def)
  show ?thesis using r o n i by simp
qed

section \<open>Properties of the URL scanner automation\<close>

subsection \<open>What the shim has bound when \<^verbatim>\<open>main()\<close> starts\<close>

lemma initial_import_complete_module:
  assumes "soar_api_source w = Inr (module_version reload_names v)"
  shows "fst (initial_import w fresh_shim) = None"
    and "builtins (snd (initial_import w fresh_shim)) ''context''
           = Some (Value (ensure_context_loaded w))"
    and "builtins (snd (initial_import w fresh_shim)) ''return_context'' = Some (Function v)"
    and "builtins (snd (initial_import w fresh_shim)) ''get_integration_config''
           = Some (Function v)"
  using assms
  by (simp_all add: initial_import_def import_SoarBaseAPI_def fresh_shim_def
      module_version_def reload_names_def initial_names_def cache_names_def Let_def
      split: prod.splits)

lemma initial_import_repo_module:
  assumes "soar_api_source w = Inr (module_version repo_attributes v)"
  shows "fst (initial_import w fresh_shim) = Some AttributeError"
    and "builtins (snd (initial_import w fresh_shim)) ''context'' = None"
  using assms
  by (simp_all add: initial_import_def import_SoarBaseAPI_def fresh_shim_def
      module_version_def repo_attributes_def initial_names_def cache_names_def
      except_import_error_def)

lemma run_repo_module:
  assumes "soar_api_source w = Inr (module_version repo_attributes v)"
  shows "run_automation w = (Some NameError, [])"
  using initial_import_repo_module(2) [OF assms]
  by (simp add: run_automation_def main_def ambient_context_def)

subsection \<open>The run on \<^verbatim>\<open>{"urls": []}\<close>\<close>

lemma run_piped_world:
  "run_automation piped_world =
     (None,
      [Stdout no_urls_result,
       Stdout (JObj [(''virustotal'',
         JObj [(''success'', JBool False),
               (''error'', JStr ''No valid URLs provided. Invalid URLs: []''),
               (''results'', JArr []),
               (''summary'',
                 JObj [(''total_urls'', JInt 0), (''scanned_urls'', JInt 0),
                       (''malicious_urls'', JInt 0), (''clean_urls'', JInt 0),
                       (''failed_scans'', JInt 0)])])]),
       Stdout (JObj [(''virustotal'',
         JObj [(''success'', JBool False),
               (''results'', JArr []),
               (''summary'',
                 JObj [(''total_urls'', JInt 0), (''scanned_urls'', JInt 0),
                       (''malicious_urls'', JInt 0), (''clean_urls'', JInt 0),
                       (''failed_scans'', JInt 0), (''invalid_urls'', JInt 0),
                       (''success_rate'', JInt 0)]),
               (''timestamp'', JStr ''2024-01-01T12:00:00'')])])])"
proof -
  define s where "s = snd (initial_import piped_world fresh_shim)"
  have src: "soar_api_source piped_world = Inr (module_version reload_names 1)"
    by (simp add: piped_world_def bare_world_def)
  have ctx: "ensure_context_loaded piped_world = empty_urls_context"
    by (simp add: ensure_context_loaded_def load_context_def piped_world_def bare_world_def
        empty_urls_context_def)
  have b: "builtins s ''context'' = Some (Value empty_urls_context)"
    "builtins s ''return_context'' = Some (Function 1)"
    "builtins s ''get_integration_config'' = Some (Function 1)"
    using initial_import_complete_module [OF src] by (simp_all add: s_def ctx)
  have "main piped_world s =
     (None,
      [Stdout no_urls_result,
       Stdout (JObj [(''virustotal'',
         JObj [(''success'', JBool False),
               (''error'', JStr ''No valid URLs provided. Invalid URLs: []''),
               (''results'', JArr []),
               (''summary'',
                 JObj [(''total_urls'', JInt 0), (''scanned_urls'', JInt 0),
                       (''malicious_urls'', JInt 0), (''clean_urls'', JInt 0),
                       (''failed_scans'', JInt 0)])])]),
       Stdout (JObj [(''virustotal'',
         JObj [(''success'', JBool False),
               (''results'', JArr []),
               (''summary'',
                 JObj [(''total_urls'', JInt 0), (''scanned_urls'', JInt 0),
                       (''malicious_urls'', JInt 0), (''clean_urls'', JInt 0),
                       (''failed_scans'', JInt 0), (''invalid_urls'', JInt 0),
                       (''success_rate'', JInt 0)]),
               (''timestamp'', JStr ''2024-01-01T12:00:00'')])])])"
    using b
    by (simp add: main_def ambient_context_def call_return_context_def
        call_get_integration_config_def piped_world_def bare_world_def
        empty_urls_context_def return_context_def no_valid_urls_result_def
        VirusTotalIntegration_def load_config_def get_integration_config_def
        get_secauto_config_def config_paths_def read_config_file_def final_result_def
        Let_def)
  then show ?thesis by (simp add: run_automation_def s_def)
qed

lemma run_served_world:
  "run_automation served_world =
     (None,
      [Stdout no_urls_result,
       Stdout (JObj [(''virustotal'',
         JObj [(''success'', JBool False),
               (''error'', JStr ''No valid URLs provided. Invalid URLs: []''),
               (''results'', JArr []),
               (''summary'',
                 JObj [(''total_urls'', JInt 0), (''scanned_urls'', JInt 0),
                       (''malicious_urls'', JInt 0), (''clean_urls'', JInt 0),
                       (''failed_scans'', JInt 0)])])]),
       HttpGet ''http://localhost:8080/integrations/virustotal'' (JStr ''K''),
       Stdout (JObj [(''virustotal'',
         JObj [(''success'', JBool False),
               (''results'', JArr []),
               (''summary'',
                 JObj [(''total_urls'', JInt 0), (''scanned_urls'', JInt 0),
                       (''malicious_urls'', JInt 0), (''clean_urls'', JInt 0),
                       (''failed_scans'', JInt 0), (''invalid_urls'', JInt 0),
                       (''success_rate'', JInt 0)]),
               (''timestamp'', JStr ''2024-01-01T12:00:00'')])])])"
proof -
  define s where "s = snd (initial_import served_world fresh_shim)"
  have src: "soar_api_source served_world = Inr (module_version reload_names 1)"
    by (simp add: served_world_def piped_world_def bare_world_def)
  have ctx: "ensure_context_loaded served_world = empty_urls_context"
    by (simp add: ensure_context_loaded_def load_context_def served_world_def piped_world_def
        bare_world_def empty_urls_context_def)
  have b: "builtins s ''context'' = Some (Value empty_urls_context)"
    "builtins s ''return_context'' = Some (Function 1)"
    "builtins s ''get_integration_config'' = Some (Function 1)"
    using initial_import_complete_module [OF src] by (simp_all add: s_def ctx)
  have "main served_world s =
     (None,
      [Stdout no_urls_result,
       Stdout (JObj [(''virustotal'',
         JObj [(''success'', JBool False),
               (''error'', JStr ''No valid URLs provided. Invalid URLs: []''),
               (''results'', JArr []),
               (''summary'',
                 JObj [(''total_urls'', JInt 0), (''scanned_urls'', JInt 0),
                       (''malicious_urls'', JInt 0), (''clean_urls'', JInt 0),
                       (''failed_scans'', JInt 0)])])]),
       HttpGet ''http://localhost:8080/integrations/virustotal'' (JStr ''K''),
       Stdout (JObj [(''virustotal'',
         JObj [(''success'', JBool False),
               (''results'', JArr []),
               (''summary'',
                 JObj [(''total_urls'', JInt 0), (''scanned_urls'', JInt 0),
                       (''malicious_urls'', JInt 0), (''clean_urls'', JInt 0),
                       (''failed_scans'', JInt 0), (''invalid_urls'', JInt 0),
                       (''success_rate'', JInt 0)]),
               (''timestamp'', JStr ''2024-01-01T12:00:00'')])])])"
    using b
    by (simp add: main_def ambient_context_def call_return_context_def
        call_get_integration_config_def served_world_def piped_world_def bare_world_def
        empty_urls_context_def return_context_def no_valid_urls_result_def
        VirusTotalIntegration_def load_config_def get_integration_config_def
        get_secauto_config_def config_paths_def read_config_file_def files_with_config_def
        local_config_def integration_url_def format_value_def integration_response_def
        except_request_exception_def apply_config_def bind_exn_def dict_get_def
        final_result_def Let_def)
  then show ?thesis by (simp add: run_automation_def s_def)
qed

subsection \<open>The documents of a run\<close>

lemma stdout_documents_append:
  "stdout_documents (xs @ ys) = stdout_documents xs @ stdout_documents ys"
  by (induction xs rule: stdout_documents.induct) simp_all

lemma scan_url_no_stdout: "stdout_documents (snd (scan_url w vt url)) = []"
  by (simp add: scan_url_def)

lemma scan_urls_no_stdout: "stdout_documents (snd (scan_urls w vt urls t)) = []"
proof (induction urls arbitrary: t)
  case Nil
  show ?case by simp
next
  case (Cons url rest)
  obtain result evs where s: "scan_url w vt url = (result, evs)"
    by (cases "scan_url w vt url")
  define t1 where "t1 = (case scan_try w result url t of
      Inr t' \<Rightarrow> t' | Inl e \<Rightarrow> scan_except w e url t)"
  obtain t2 evs' where r: "scan_urls w vt rest t1 = (t2, evs')"
    by (cases "scan_urls w vt rest t1")
  have "stdout_documents evs = []" using scan_url_no_stdout [of w vt url] s by simp
  moreover have "stdout_documents evs' = []" using Cons [of t1] r by simp
  moreover have "scan_urls w vt (url # rest) t = (t2, evs @ evs')"
    using s r by (simp add: t1_def)
  ultimately show ?case by (simp add: stdout_documents_append)
qed

lemma get_integration_config_no_stdout:
  "stdout_documents (snd (get_integration_config w name)) = []"
  by (simp add: get_integration_config_def Let_def split: prod.splits)

lemma call_get_integration_config_no_stdout:
  "stdout_documents (snd (call_get_integration_config w s name)) = []"
  by (simp add: call_get_integration_config_def get_integration_config_no_stdout
      split: option.splits pyobj.splits)

lemma VirusTotalIntegration_no_stdout:
  "stdout_documents (snd (VirusTotalIntegration w s)) = []"
proof -
  obtain r evs where c: "call_get_integration_config w s ''virustotal'' = (r, evs)"
    by (cases "call_get_integration_config w s ''virustotal''")
  then have "stdout_documents evs = []"
    using call_get_integration_config_no_stdout [of w s "''virustotal''"] by simp
  then show ?thesis using c
    by (simp add: VirusTotalIntegration_def load_config_def split: sum.splits)
qed

text \<open>
  The number of documents a run of \<^verbatim>\<open>main\<close> prints when the shim has bound its names and
  the run ends without an exception: one when the context has a valid URL, and one more
  for each of the two error blocks it went through.
\<close>

lemma main_document_count:
  assumes "builtins s ''context'' = Some (Value context)"
    and "builtins s ''return_context'' = Some (Function f)"
    and "py_get context ''urls'' (JArr []) = Inr urls"
    and "py_iter urls = Inr items"
    and "classify_urls w items [] [] = Inr (valid_urls, invalid_urls)"
  shows "fst (main w s) = None"
    and "length (stdout_documents (snd (main w s))) =
           1 + (if truthy urls then 0 else 1) + (if valid_urls = [] then 1 else 0)"
proof -
  obtain vt evs_config where v: "VirusTotalIntegration w s = (vt, evs_config)"
    by (cases "VirusTotalIntegration w s")
  let ?t0 = "\<lparr> results = [], malicious_count = JInt 0, clean_count = 0, failed_count = 0 \<rparr>"
  obtain t evs_scan where sc: "scan_urls w vt valid_urls ?t0 = (t, evs_scan)"
    by (cases "scan_urls w vt valid_urls ?t0")
  have c: "stdout_documents evs_config = []"
    using VirusTotalIntegration_no_stdout [of w s] v by simp
  have d: "stdout_documents evs_scan = []"
    using scan_urls_no_stdout [of w vt valid_urls ?t0] sc by simp
  show "fst (main w s) = None"
    using assms v sc
    by (simp add: main_def ambient_context_def call_return_context_def Let_def)
  show "length (stdout_documents (snd (main w s))) =
           1 + (if truthy urls then 0 else 1) + (if valid_urls = [] then 1 else 0)"
    using assms v sc c d
    by (simp add: main_def ambient_context_def call_return_context_def Let_def
        return_context_def stdout_documents_append)
qed

text \<open>
  C2 fails on the code, in two ways. With the module file of the repository the shim
  raises \<^verbatim>\<open>AttributeError\<close> before it binds \<^verbatim>\<open>context\<close>, so the run on the piped context
  \<^verbatim>\<open>{"urls": []}\<close> ends with \<^verbatim>\<open>NameError\<close> and emits no envelope at all. With a module file
  that defines every name the shim binds, \<^verbatim>\<open>main\<close> does print an envelope with \<^verbatim>\<open>success\<close>
  false, \<^verbatim>\<open>summary.total_urls\<close> 0 and an error text, but it does not return there: it
  goes on to construct the integration, whose \<^verbatim>\<open>_load_config\<close> calls
  \<open>get_integration_config\<close>, and with a credential in the local file the request for the
  integration's configuration is sent.
\<close>

theorem empty_urls_run_sends_request:
  "run_automation served_repo_world = (Some NameError, [])
   \<and> hd (stdout_documents (snd (run_automation served_world))) = no_urls_result
   \<and> search_context_path no_urls_result ''virustotal.success'' = JBool False
   \<and> search_context_path no_urls_result ''virustotal.summary.total_urls'' = JInt 0
   \<and> search_context_path no_urls_result ''virustotal.error'' = JStr no_urls_error
   \<and> no_urls_error \<noteq> []
   \<and> network_calls (snd (run_automation served_world)) =
       [HttpGet ''http://localhost:8080/integrations/virustotal'' (JStr ''K'')]"
proof -
  have "soar_api_source served_repo_world = Inr (module_version repo_attributes 1)"
    by (simp add: served_repo_world_def)
  then have "run_automation served_repo_world = (Some NameError, [])"
    by (rule run_repo_module)
  then show ?thesis
    by (simp add: run_served_world)
       (simp add: search_context_path_def no_urls_result_def no_urls_error_def dict_get_def)
qed

text \<open>
  C3 fails on the code, in two ways. With the module file of the repository the run on
  the piped context \<^verbatim>\<open>{"urls": []}\<close> ends with \<^verbatim>\<open>NameError\<close> before any call of
  \<open>return_context\<close>: it is called zero times, not once. With a module file that defines
  every name the shim binds, one run on that context calls \<open>return_context\<close> three times
  and prints three documents: the envelope for no URLs, the envelope for no valid URLs,
  and the final envelope.
\<close>

theorem empty_urls_run_prints_three_documents:
  "run_automation piped_repo_world = (Some NameError, [])
   \<and> fst (run_automation piped_world) = None
   \<and> length (stdout_documents (snd (run_automation piped_world))) = 3
   \<and> network_calls (snd (run_automation piped_world)) = []
   \<and> hd (stdout_documents (snd (run_automation piped_world))) = no_urls_result
   \<and> hd (stdout_documents (snd (run_automation piped_world)))
       \<noteq> last (stdout_documents (snd (run_automation piped_world)))"
proof -
  have "soar_api_source piped_repo_world = Inr (module_version repo_attributes 1)"
    by (simp add: piped_repo_world_def)
  then have "run_automation piped_repo_world = (Some NameError, [])"
    by (rule run_repo_module)
  then show ?thesis
    by (simp add: run_piped_world) (simp add: no_urls_result_def)
qed

end
